theory Spec2Isabelle
  imports Complex_Main "HOL-Library.AList"
begin

section \<open>Conventions of the embedding\<close>

text \<open>
  The development embeds the backtesting engine (\<^verbatim>\<open>src/backtesting/engine.py\<close>), the
  rolling-window evaluator (\<^verbatim>\<open>src/filters/performance_filter.py\<close>) and the price lookup
  (\<^verbatim>\<open>src/data/market_data.py\<close>).

  \<^item> A \<^verbatim>\<open>datetime\<close> is an integer number of microseconds of wall-clock time. A
    \<^verbatim>\<open>timedelta\<close> is an integer number of microseconds as well, and its \<^verbatim>\<open>.days\<close> is
    the floor division by one day.
  \<^item> A time zone is given by the wall-clock intervals that do not exist in it (a clock set
    forward) and those that occur twice (a clock set back): \<^verbatim>\<open>tz_localize\<close> raises on a
    time in one of them and otherwise keeps the wall-clock reading. The index of a
    time-zone-aware history is given by the wall-clock readings of its rows, so the
    comparison of a localised date with the index is the comparison of wall-clock times.
  \<^item> A date string \<^verbatim>\<open>"%Y-%m-%d"\<close> is the ordinal of its calendar day: \<^verbatim>\<open>strftime\<close> maps
    an instant to its day, \<^verbatim>\<open>strptime\<close> maps a day to its midnight.
  \<^item> A price history (the DataFrame) is the time zone of its index and the list of its
    rows (index, Close), in row order. Prices are real numbers. Python's \<^verbatim>\<open>round(x, 2)\<close>
    is rounding to the nearest multiple of 1/100, ties to even.
  \<^item> The percentage change that pandas computes in floating point is an argument of the
    model: a function from the current and the earlier close to NaN, an infinity or a
    finite value. Its reading in exact arithmetic is \<open>exact_pct_change\<close>; the general
    theorems hold for every such function, the concrete evaluations use the exact one.
  \<^item> A \<^verbatim>\<open>dict\<close> is an association list in insertion order: assignment to a key is
    \<open>AList.update\<close> (in place for a present key, appended for a new one), \<^verbatim>\<open>del\<close> is
    \<open>AList.delete\<close>, lookup is \<open>map_of\<close>.
  \<^item> A raised exception is the \<open>Inl\<close> of a sum; a loop that may not end is a partial
    function into \<open>option\<close>. Log output is not modelled, except where the expression
    logged can raise.
\<close>

type_synonym datetime = int
type_synonym hist = "(datetime \<times> real) list"

datatype py_error = ZeroDivisionError | NonExistentTimeError | AmbiguousTimeError

definition usec_per_day :: int where
  "usec_per_day = 86400000000"

definition timedelta_of_days :: "int \<Rightarrow> int" where
  "timedelta_of_days n = n * usec_per_day"

definition timedelta_days :: "int \<Rightarrow> int" where
  "timedelta_days delta = delta div usec_per_day"

definition strftime_ymd :: "datetime \<Rightarrow> int" where
  "strftime_ymd t = t div usec_per_day"

definition strptime_ymd :: "int \<Rightarrow> datetime" where
  "strptime_ymd d = d * usec_per_day"

definition rint :: "real \<Rightarrow> int" where
  "rint x =
     (let f = \<lfloor>x\<rfloor>; d = x - of_int f
      in if d < 1 / 2 then f
         else if 1 / 2 < d then f + 1
         else if even f then f else f + 1)"

definition round2 :: "real \<Rightarrow> real" where
  "round2 x = of_int (rint (x * 100)) / 100"

text \<open>A value with at most two decimals: a multiple of 1/100.\<close>

definition is_cents :: "real \<Rightarrow> bool" where
  "is_cents x \<longleftrightarrow> of_int \<lfloor>x * 100\<rfloor> = x * 100"

subsection \<open>Floats that can be infinite\<close>

text \<open>
  The values of a float that is not NaN, in the order of Python's comparisons. NaN is the
  \<open>None\<close> of an option where it can occur.
\<close>

datatype pyfloat = NegInf | Finite real | PosInf

instantiation pyfloat :: linorder
begin

fun less_eq_pyfloat :: "pyfloat \<Rightarrow> pyfloat \<Rightarrow> bool" where
  "less_eq_pyfloat NegInf y = True"
| "less_eq_pyfloat (Finite a) NegInf = False"
| "less_eq_pyfloat (Finite a) (Finite b) = (a \<le> b)"
| "less_eq_pyfloat (Finite a) PosInf = True"
| "less_eq_pyfloat PosInf NegInf = False"
| "less_eq_pyfloat PosInf (Finite b) = False"
| "less_eq_pyfloat PosInf PosInf = True"

definition less_pyfloat :: "pyfloat \<Rightarrow> pyfloat \<Rightarrow> bool" where
  "less_pyfloat x y \<longleftrightarrow> x \<le> y \<and> \<not> y \<le> x"

instance
proof
  fix x y z :: pyfloat
  show "(x < y) = (x \<le> y \<and> \<not> y \<le> x)"
    by (simp add: less_pyfloat_def)
  show "x \<le> x"
    by (cases x) simp_all
  show "x \<le> y \<Longrightarrow> y \<le> z \<Longrightarrow> x \<le> z"
    by (cases x; cases y; cases z) simp_all
  show "x \<le> y \<Longrightarrow> y \<le> x \<Longrightarrow> x = y"
    by (cases x; cases y) simp_all
  show "x \<le> y \<or> y \<le> x"
    by (cases x; cases y) auto
qed

end

text \<open>\<^verbatim>\<open>round(x, 2)\<close> on a float that can be infinite: an infinity is returned as it is.\<close>

fun round2_pyfloat :: "pyfloat \<Rightarrow> pyfloat" where
  "round2_pyfloat (Finite x) = Finite (round2 x)"
| "round2_pyfloat NegInf = NegInf"
| "round2_pyfloat PosInf = PosInf"

text \<open>
  The percentage change \<open>(cur / prev - 1) * 100\<close> in exact arithmetic, with the values
  that the float division gives on a zero divisor: NaN for 0/0, an infinity otherwise.
\<close>

definition exact_pct_change :: "real \<Rightarrow> real \<Rightarrow> pyfloat option" where
  "exact_pct_change cur prev =
     (if prev = 0
      then (if cur = 0 then None else if 0 < cur then Some PosInf else Some NegInf)
      else Some (Finite ((cur / prev - 1) * 100)))"

subsection \<open>Time zones\<close>

record tzinfo =
  nonexistent :: "(datetime \<times> datetime) list"
  ambiguous :: "(datetime \<times> datetime) list"

definition in_intervals :: "(datetime \<times> datetime) list \<Rightarrow> datetime \<Rightarrow> bool" where
  "in_intervals ivs t = list_ex (\<lambda>iv. fst iv \<le> t \<and> t < snd iv) ivs"

text \<open>\<^verbatim>\<open>pd.Timestamp(date).tz_localize(tz)\<close>, with the defaults that raise.\<close>

definition tz_localize :: "tzinfo \<Rightarrow> datetime \<Rightarrow> py_error + datetime" where
  "tz_localize tz t =
     (if in_intervals (nonexistent tz) t then Inl NonExistentTimeError
      else if in_intervals (ambiguous tz) t then Inl AmbiguousTimeError
      else Inr t)"

text \<open>
  The test \<^verbatim>\<open>if hist.index.tz is not None\<close> with its two branches: the date localised
  into the zone of the index, or the date itself for a naive index.
\<close>

definition date_in_index_tz :: "tzinfo option \<Rightarrow> datetime \<Rightarrow> py_error + datetime" where
  "date_in_index_tz tz date =
     (case tz of None \<Rightarrow> Inr date | Some z \<Rightarrow> tz_localize z date)"

section \<open>Data model\<close>

record DataFrame =
  df_tz :: "tzinfo option"
  df_rows :: hist

record Trade =
  ticker :: string
  company_name :: string
  entry_date :: int
  entry_price :: real
  shares :: real
  target_price :: real
  exit_date :: "int option"
  exit_price :: "real option"
  holding_days :: "int option"
  pnl :: "real option"

record WorstPerformance =
  return_pct :: pyfloat
  start_date :: int
  end_date :: int
  start_price :: real
  end_price :: real

text \<open>The candidate dictionary built by \<^verbatim>\<open>_screen_for_date\<close>, with its five fixed keys.\<close>

record stock_info =
  info_ticker :: string
  info_return_pct :: pyfloat
  info_entry_price :: real
  info_target_price :: real
  info_company_name :: string

record BacktestResult =
  trades :: "Trade list"
  total_pnl :: real
  total_invested :: real
  total_trades :: nat
  winning_trades :: nat
  losing_trades :: nat
  still_open :: nat
  avg_holding_days :: real
  holding_days_distribution :: "(string \<times> nat) list"

record BacktestEngine =
  lookback_years :: int
  investment_per_trade :: real
  screening_frequency_days :: int
  open_positions :: "(string \<times> Trade) list"
  closed_trades :: "Trade list"
  all_historical_data :: "(string \<times> DataFrame) list"

definition init_engine :: "int \<Rightarrow> real \<Rightarrow> int \<Rightarrow> BacktestEngine" where
  "init_engine years amount freq =
     \<lparr>lookback_years = years, investment_per_trade = amount,
      screening_frequency_days = freq, open_positions = [], closed_trades = [],
      all_historical_data = []\<rparr>"

section \<open>Price lookup\<close>

text \<open>
  \<^verbatim>\<open>get_price_on_date\<close>: the date is first localised into the zone of the index, which
  can raise an exception that the function does not catch. \<^verbatim>\<open>hist.loc[date, "Close"]\<close>
  is then the row whose index is the date; on \<^verbatim>\<open>KeyError\<close> the rows with index at most the
  date are selected and the last of them, in row order, is read.
\<close>

definition get_price_on_date :: "DataFrame \<Rightarrow> datetime \<Rightarrow> py_error + real option" where
  "get_price_on_date h date =
     (case date_in_index_tz (df_tz h) date of
        Inl err \<Rightarrow> Inl err
      | Inr date_tz \<Rightarrow>
          Inr (case find (\<lambda>row. fst row = date_tz) (df_rows h) of
                 Some row \<Rightarrow> Some (snd row)
               | None \<Rightarrow>
                   (let prior_dates = filter (\<lambda>row. fst row \<le> date_tz) (df_rows h)
                    in if 0 < length prior_dates then Some (snd (last prior_dates))
                       else None)))"

section \<open>Position lifecycle\<close>

text \<open>
  \<^verbatim>\<open>_open_position\<close>. The division \<^verbatim>\<open>investment_per_trade / entry_price\<close> is between
  Python floats and raises on a zero entry price.
\<close>

definition open_position ::
  "stock_info \<Rightarrow> datetime \<Rightarrow> BacktestEngine \<Rightarrow> py_error + BacktestEngine" where
  "open_position si entry_dt e =
     (if info_ticker si \<in> fst ` set (open_positions e) then Inr e
      else if info_target_price si \<le> info_entry_price si then Inr e
      else if info_entry_price si = 0 then Inl ZeroDivisionError
      else Inr (e\<lparr>open_positions :=
        AList.update (info_ticker si)
          \<lparr>ticker = info_ticker si, company_name = info_company_name si,
           entry_date = strftime_ymd entry_dt, entry_price = info_entry_price si,
           shares = investment_per_trade e / info_entry_price si,
           target_price = info_target_price si,
           exit_date = None, exit_price = None, holding_days = None, pnl = None\<rparr>
          (open_positions e)\<rparr>))"

text \<open>
  \<^verbatim>\<open>_close_position\<close>. The log line divides the profit by \<^verbatim>\<open>investment_per_trade\<close>
  before the trade is moved. The flag \<open>np\<close> says that the exit price is a numpy scalar, as
  \<^verbatim>\<open>_update_open_positions\<close> passes it (the division then yields inf or nan); with a
  Python float, as \<^verbatim>\<open>_close_remaining_positions\<close> passes it, a zero investment raises.
\<close>

definition close_position ::
  "bool \<Rightarrow> string \<Rightarrow> real \<Rightarrow> datetime \<Rightarrow> BacktestEngine \<Rightarrow> py_error + BacktestEngine" where
  "close_position np tk xp xd e =
     (case map_of (open_positions e) tk of
        None \<Rightarrow> Inr e
      | Some trade \<Rightarrow>
          (let entry_dt = strptime_ymd (entry_date trade);
               hdays = timedelta_days (xd - entry_dt);
               profit = shares trade * (xp - entry_price trade);
               trade' = trade\<lparr>exit_date := Some (strftime_ymd xd), exit_price := Some xp,
                               holding_days := Some hdays, pnl := Some profit\<rparr>
           in if \<not> np \<and> investment_per_trade e = 0 then Inl ZeroDivisionError
              else Inr (e\<lparr>closed_trades := closed_trades e @ [trade'],
                          open_positions := AList.delete tk (open_positions e)\<rparr>)))"

text \<open>
  \<^verbatim>\<open>_update_open_positions\<close>: first the list of positions to close, then the closes.
  The first loop runs over the open positions in order; an exception of the price lookup
  ends it.
\<close>

fun collect_to_close ::
  "datetime \<Rightarrow> (string \<times> DataFrame) list \<Rightarrow> (string \<times> Trade) list
     \<Rightarrow> py_error + (string \<times> real \<times> datetime) list" where
  "collect_to_close current_date data [] = Inr []"
| "collect_to_close current_date data ((tk, trade) # rest) =
     (case map_of data tk of
        None \<Rightarrow> collect_to_close current_date data rest
      | Some h \<Rightarrow>
          (case get_price_on_date h current_date of
             Inl err \<Rightarrow> Inl err
           | Inr None \<Rightarrow> collect_to_close current_date data rest
           | Inr (Some current_price) \<Rightarrow>
               (case collect_to_close current_date data rest of
                  Inl err \<Rightarrow> Inl err
                | Inr others \<Rightarrow>
                    Inr (if target_price trade \<le> current_price
                         then (tk, current_price, current_date) # others else others))))"

definition positions_to_close ::
  "datetime \<Rightarrow> BacktestEngine \<Rightarrow> py_error + (string \<times> real \<times> datetime) list" where
  "positions_to_close current_date e =
     collect_to_close current_date (all_historical_data e) (open_positions e)"

fun close_all ::
  "(string \<times> real \<times> datetime) list \<Rightarrow> BacktestEngine \<Rightarrow> py_error + BacktestEngine" where
  "close_all [] e = Inr e"
| "close_all ((tk, xp, xd) # rest) e =
     (case close_position True tk xp xd e of
        Inl err \<Rightarrow> Inl err
      | Inr e' \<Rightarrow> close_all rest e')"

definition update_open_positions ::
  "datetime \<Rightarrow> BacktestEngine \<Rightarrow> py_error + BacktestEngine" where
  "update_open_positions current_date e =
     (case positions_to_close current_date e of
        Inl err \<Rightarrow> Inl err
      | Inr to_close \<Rightarrow> close_all to_close e)"

text \<open>\<^verbatim>\<open>_close_remaining_positions\<close>, over the list of keys taken before the loop.\<close>

fun close_remaining_keys ::
  "string list \<Rightarrow> datetime \<Rightarrow> BacktestEngine \<Rightarrow> py_error + BacktestEngine" where
  "close_remaining_keys [] now e = Inr e"
| "close_remaining_keys (tk # ks) now e =
     (case map_of (all_historical_data e) tk of
        None \<Rightarrow> close_remaining_keys ks now e
      | Some h \<Rightarrow>
          (case get_price_on_date h now of
             Inl err \<Rightarrow> Inl err
           | Inr None \<Rightarrow> close_remaining_keys ks now e
           | Inr (Some current_price) \<Rightarrow>
               (case close_position False tk current_price now e of
                  Inl err \<Rightarrow> Inl err
                | Inr e' \<Rightarrow> close_remaining_keys ks now e')))"

definition close_remaining_positions ::
  "datetime \<Rightarrow> BacktestEngine \<Rightarrow> py_error + BacktestEngine" where
  "close_remaining_positions now e =
     close_remaining_keys (map fst (open_positions e)) now e"

section \<open>Rolling-window evaluator\<close>

text \<open>
  \<^verbatim>\<open>hist["Close"].pct_change(periods=5) * 100\<close>: from the sixth row on, row \<open>i\<close> holds the
  percentage change from the close five rows back to the close of the row; the rows
  before hold NaN. The float computation itself is the argument \<open>pc\<close>.
\<close>

definition pct_change5 ::
  "(real \<Rightarrow> real \<Rightarrow> pyfloat option) \<Rightarrow> real list \<Rightarrow> nat \<Rightarrow> pyfloat option" where
  "pct_change5 pc closes i = (if i < 5 then None else pc (closes ! i) (closes ! (i - 5)))"

text \<open>\<^verbatim>\<open>idxmin\<close>: the first row, in row order, that holds the minimum.\<close>

fun idxmin_from :: "nat \<times> pyfloat \<Rightarrow> (nat \<times> pyfloat) list \<Rightarrow> nat \<times> pyfloat" where
  "idxmin_from best [] = best"
| "idxmin_from best (row # others) =
     idxmin_from (if snd row < snd best then row else best) others"

text \<open>
  \<^verbatim>\<open>calculate_worst_5day_performance\<close>, on the rows of the frame. \<^verbatim>\<open>dropna\<close> keeps the
  rows whose change is not NaN. Rows are addressed by position: the index of a history has
  no duplicate dates, so \<^verbatim>\<open>get_loc\<close> of the label of a row is its position.
\<close>

definition calculate_worst_5day_performance ::
  "(real \<Rightarrow> real \<Rightarrow> pyfloat option) \<Rightarrow> hist \<Rightarrow> WorstPerformance option" where
  "calculate_worst_5day_performance pc h =
     (if length h < 5 then None
      else
        (case List.map_filter
                (\<lambda>i. map_option (Pair i) (pct_change5 pc (map snd h) i)) [0..<length h] of
           [] \<Rightarrow> None
         | row # others \<Rightarrow>
             (let worst = idxmin_from row others;
                  idx_position = fst worst;
                  worst_return = snd worst
              in if idx_position < 5 then None
                 else
                   (let start_row = h ! (idx_position - 5);
                        end_row = h ! idx_position
                    in Some \<lparr>return_pct = round2_pyfloat worst_return,
                             start_date = strftime_ymd (fst start_row),
                             end_date = strftime_ymd (fst end_row),
                             start_price = round2 (snd start_row),
                             end_price = round2 (snd end_row)\<rparr>))))"

section \<open>Candidate selection\<close>

definition tail_rows :: "nat \<Rightarrow> 'a list \<Rightarrow> 'a list" where
  "tail_rows n xs = drop (length xs - n) xs"

text \<open>
  The body of the loop over the histories: \<open>Inr None\<close> is \<^verbatim>\<open>continue\<close>, \<open>Inl\<close> an
  exception of the localisation or of the price lookup.
\<close>

definition candidate_of ::
  "(real \<Rightarrow> real \<Rightarrow> pyfloat option) \<Rightarrow> datetime \<Rightarrow> string \<times> DataFrame
     \<Rightarrow> py_error + stock_info option" where
  "candidate_of pc screening_date entry =
     (let tk = fst entry; h = snd entry
      in case date_in_index_tz (df_tz h) screening_date of
           Inl err \<Rightarrow> Inl err
         | Inr screening_date_tz \<Rightarrow>
             (let hist_up_to_date = filter (\<lambda>row. fst row \<le> screening_date_tz) (df_rows h)
              in if length hist_up_to_date < 10 then Inr None
                 else
                   (case calculate_worst_5day_performance pc (tail_rows 10 hist_up_to_date) of
                      None \<Rightarrow> Inr None
                    | Some perf \<Rightarrow>
                        if Finite 0 \<le> return_pct perf then Inr None
                        else
                          (case get_price_on_date h screening_date of
                             Inl err \<Rightarrow> Inl err
                           | Inr None \<Rightarrow> Inr None
                           | Inr (Some current_price) \<Rightarrow>
                               Inr (Some \<lparr>info_ticker = tk,
                                  info_return_pct = return_pct perf,
                                  info_entry_price = current_price,
                                  info_target_price = start_price perf,
                                  info_company_name = tk\<rparr>)))))"

fun collect_candidates ::
  "(real \<Rightarrow> real \<Rightarrow> pyfloat option) \<Rightarrow> datetime \<Rightarrow> (string \<times> DataFrame) list
     \<Rightarrow> py_error + stock_info list" where
  "collect_candidates pc screening_date [] = Inr []"
| "collect_candidates pc screening_date (entry # rest) =
     (case candidate_of pc screening_date entry of
        Inl err \<Rightarrow> Inl err
      | Inr found \<Rightarrow>
          (case collect_candidates pc screening_date rest of
             Inl err \<Rightarrow> Inl err
           | Inr others \<Rightarrow> Inr (case found of None \<Rightarrow> others | Some c \<Rightarrow> c # others)))"

text \<open>\<^verbatim>\<open>_screen_for_date\<close>: the stable sort by return, then its first element.\<close>

definition screen_for_date ::
  "(real \<Rightarrow> real \<Rightarrow> pyfloat option) \<Rightarrow> datetime \<Rightarrow> BacktestEngine
     \<Rightarrow> py_error + stock_info option" where
  "screen_for_date pc screening_date e =
     (case collect_candidates pc screening_date (all_historical_data e) of
        Inl err \<Rightarrow> Inl err
      | Inr candidates \<Rightarrow>
          Inr (case sort_key info_return_pct candidates of
                 [] \<Rightarrow> None
               | worst # _ \<Rightarrow> Some worst))"

section \<open>The date loop\<close>

text \<open>The body of the \<^verbatim>\<open>while\<close> loop of \<^verbatim>\<open>_simulate_screenings\<close>.\<close>

definition screening_step ::
  "(real \<Rightarrow> real \<Rightarrow> pyfloat option) \<Rightarrow> datetime \<Rightarrow> BacktestEngine
     \<Rightarrow> py_error + BacktestEngine" where
  "screening_step pc current_date e =
     (case update_open_positions current_date e of
        Inl err \<Rightarrow> Inl err
      | Inr e1 \<Rightarrow>
          (case screen_for_date pc current_date e1 of
             Inl err \<Rightarrow> Inl err
           | Inr None \<Rightarrow> Inr e1
           | Inr (Some worst_stock) \<Rightarrow> open_position worst_stock current_date e1))"

partial_function (option) simulate_loop ::
  "(real \<Rightarrow> real \<Rightarrow> pyfloat option) \<Rightarrow> datetime \<Rightarrow> datetime \<Rightarrow> BacktestEngine
     \<Rightarrow> (py_error + BacktestEngine) option" where
  "simulate_loop pc current_date end_dt e =
     (if current_date \<le> end_dt
      then (case screening_step pc current_date e of
              Inl err \<Rightarrow> Some (Inl err)
            | Inr e' \<Rightarrow>
                simulate_loop pc
                  (current_date + timedelta_of_days (screening_frequency_days e'))
                  end_dt e')
      else Some (Inr e))"

declare simulate_loop.simps [code]

definition simulate_screenings ::
  "(real \<Rightarrow> real \<Rightarrow> pyfloat option) \<Rightarrow> datetime \<Rightarrow> BacktestEngine
     \<Rightarrow> (py_error + BacktestEngine) option" where
  "simulate_screenings pc now e =
     simulate_loop pc (now - timedelta_of_days (lookback_years e * 365)) now e"

section \<open>Result aggregation\<close>

text \<open>The table of ranges; the upper bound \<open>None\<close> is \<^verbatim>\<open>float("inf")\<close>.\<close>

definition ranges :: "(int \<times> int option \<times> string) list" where
  "ranges =
     [(0, Some 7, ''0-7 days''), (7, Some 14, ''7-14 days''),
      (14, Some 30, ''14-30 days''), (30, Some 60, ''30-60 days''),
      (60, Some 90, ''60-90 days''), (90, Some 180, ''90-180 days''),
      (180, Some 365, ''180-365 days''), (365, None, ''365+ days'')]"

text \<open>The inner loop with its \<^verbatim>\<open>break\<close>: the label of the first range that holds the value.\<close>

fun label_of :: "(int \<times> int option \<times> string) list \<Rightarrow> int \<Rightarrow> string option" where
  "label_of [] days = None"
| "label_of ((min_days, max_days, label) # rest) days =
     (if min_days \<le> days \<and> (case max_days of None \<Rightarrow> True | Some m \<Rightarrow> days < m)
      then Some label else label_of rest days)"

definition count_of :: "(string \<times> nat) list \<Rightarrow> string \<Rightarrow> nat" where
  "count_of distribution label =
     (case map_of distribution label of None \<Rightarrow> 0 | Some c \<Rightarrow> c)"

definition create_holding_distribution :: "int list \<Rightarrow> (string \<times> nat) list" where
  "create_holding_distribution days_list =
     (if days_list = [] then []
      else foldl
             (\<lambda>distribution days.
                case label_of ranges days of
                  None \<Rightarrow> distribution
                | Some label \<Rightarrow>
                    AList.update label (count_of distribution label + 1) distribution)
             [] days_list)"

text \<open>
  \<^verbatim>\<open>_generate_results\<close>. The comprehension \<^verbatim>\<open>if t.holding_days\<close> keeps the values that
  are truthy: present and nonzero. \<^verbatim>\<open>if t.pnl and t.pnl > 0\<close> is the same test on the
  profit, followed by the comparison.
\<close>

definition closed_holding_days :: "Trade list \<Rightarrow> int list" where
  "closed_holding_days ts =
     List.map_filter
       (\<lambda>t. case holding_days t of
              None \<Rightarrow> None
            | Some d \<Rightarrow> if d \<noteq> 0 then Some d else None)
       ts"

definition generate_results :: "BacktestEngine \<Rightarrow> BacktestResult" where
  "generate_results e =
     (let all_trades = closed_trades e @ map snd (open_positions e);
          days_list = closed_holding_days (closed_trades e)
      in \<lparr>trades = all_trades,
          total_pnl = sum_list (List.map_filter pnl (closed_trades e)),
          total_invested = real (length all_trades) * investment_per_trade e,
          total_trades = length all_trades,
          winning_trades =
            length (filter (\<lambda>t. case pnl t of None \<Rightarrow> False | Some p \<Rightarrow> p \<noteq> 0 \<and> 0 < p)
                      (closed_trades e)),
          losing_trades =
            length (filter (\<lambda>t. case pnl t of None \<Rightarrow> False | Some p \<Rightarrow> p \<noteq> 0 \<and> p < 0)
                      (closed_trades e)),
          still_open = length (open_positions e),
          avg_holding_days =
            (if days_list \<noteq> [] then of_int (sum_list days_list) / real (length days_list)
             else 0),
          holding_days_distribution = create_holding_distribution days_list\<rparr>)"

definition create_empty_result :: BacktestResult where
  "create_empty_result =
     \<lparr>trades = [], total_pnl = 0, total_invested = 0, total_trades = 0,
      winning_trades = 0, losing_trades = 0, still_open = 0, avg_holding_days = 0,
      holding_days_distribution = []\<rparr>"

section \<open>The driver\<close>

text \<open>
  \<^verbatim>\<open>run\<close>. The universe provider and the price provider are outside the engine: the list
  that \<^verbatim>\<open>_get_candidate_tickers\<close> returned and the dictionary that
  \<^verbatim>\<open>fetch_multiple_stocks\<close> returned are arguments, as are the two readings of the clock
  (in \<^verbatim>\<open>_simulate_screenings\<close> and in \<^verbatim>\<open>_close_remaining_positions\<close>).
\<close>

definition run ::
  "(real \<Rightarrow> real \<Rightarrow> pyfloat option) \<Rightarrow> string list \<Rightarrow> (string \<times> DataFrame) list
     \<Rightarrow> datetime \<Rightarrow> datetime \<Rightarrow> BacktestEngine \<Rightarrow> (py_error + BacktestResult) option" where
  "run pc candidate_tickers fetched now1 now2 e =
     (if candidate_tickers = [] then Some (Inr create_empty_result)
      else if fetched = [] then Some (Inr create_empty_result)
      else
        (case simulate_screenings pc now1 (e\<lparr>all_historical_data := fetched\<rparr>) of
           None \<Rightarrow> None
         | Some (Inl err) \<Rightarrow> Some (Inl err)
         | Some (Inr e2) \<Rightarrow>
             (case close_remaining_positions now2 e2 of
                Inl err \<Rightarrow> Some (Inl err)
              | Inr e3 \<Rightarrow> Some (Inr (generate_results e3)))))"

section \<open>Sequences of lifecycle calls\<close>

text \<open>
  A call of the position lifecycle manager, and a sequence of calls applied from left to
  right; an exception ends the sequence.
\<close>

datatype lifecycle_op =
  Open stock_info datetime
| Update datetime
| Close bool string real datetime

fun apply_op :: "lifecycle_op \<Rightarrow> BacktestEngine \<Rightarrow> py_error + BacktestEngine" where
  "apply_op (Open si d) e = open_position si d e"
| "apply_op (Update d) e = update_open_positions d e"
| "apply_op (Close np tk xp xd) e = close_position np tk xp xd e"

fun apply_ops :: "lifecycle_op list \<Rightarrow> BacktestEngine \<Rightarrow> py_error + BacktestEngine" where
  "apply_ops [] e = Inr e"
| "apply_ops (call # calls) e =
     (case apply_op call e of
        Inl err \<Rightarrow> Inl err
      | Inr e' \<Rightarrow> apply_ops calls e')"

text \<open>
  The state invariant of the lifecycle manager: keys are distinct, a trade is stored under
  its own ticker, an open trade has its target above its entry price, its share count is
  the investment divided by the entry price, and it has no exit data; a closed trade has
  its target above its entry price and has all its exit data.
\<close>

definition open_trade_ok :: "real \<Rightarrow> string \<Rightarrow> Trade \<Rightarrow> bool" where
  "open_trade_ok amount k t \<longleftrightarrow>
     ticker t = k \<and> entry_price t < target_price t \<and>
     shares t = amount / entry_price t \<and>
     exit_date t = None \<and> exit_price t = None \<and> holding_days t = None \<and> pnl t = None"

definition closed_trade_ok :: "Trade \<Rightarrow> bool" where
  "closed_trade_ok t \<longleftrightarrow>
     entry_price t < target_price t \<and>
     exit_date t \<noteq> None \<and> exit_price t \<noteq> None \<and> holding_days t \<noteq> None \<and> pnl t \<noteq> None"

definition engine_ok :: "BacktestEngine \<Rightarrow> bool" where
  "engine_ok e \<longleftrightarrow>
     distinct (map fst (open_positions e)) \<and>
     list_all (\<lambda>(k, t). open_trade_ok (investment_per_trade e) k t) (open_positions e) \<and>
     list_all closed_trade_ok (closed_trades e)"

section \<open>Example inputs\<close>

text \<open>Concrete engines, candidates and histories at which the theorems are instantiated.\<close>

definition ex_info :: stock_info where
  "ex_info = \<lparr>info_ticker = ''ACME'', info_return_pct = Finite (- 10), info_entry_price = 25,
              info_target_price = 30, info_company_name = ''ACME''\<rparr>"

definition ex_info_low :: stock_info where
  "ex_info_low = \<lparr>info_ticker = ''BOLT'', info_return_pct = Finite (- 4), info_entry_price = 40,
              info_target_price = 40, info_company_name = ''BOLT''\<rparr>"

definition ex_engine :: BacktestEngine where
  "ex_engine = init_engine 5 50 7"

definition ex_entry_dt :: datetime where
  "ex_entry_dt = timedelta_of_days 100 + 3600000000"

definition ex_exit_dt :: datetime where
  "ex_exit_dt = timedelta_of_days 107 + 3600000000"

definition ex_trade :: Trade where
  "ex_trade = \<lparr>ticker = ''ACME'', company_name = ''ACME'', entry_date = 100,
     entry_price = 25, shares = 2, target_price = 30,
     exit_date = None, exit_price = None, holding_days = None, pnl = None\<rparr>"

definition ex_opened :: BacktestEngine where
  "ex_opened = ex_engine\<lparr>open_positions := [(''ACME'', ex_trade)]\<rparr>"

definition ex_closed_trade :: Trade where
  "ex_closed_trade = ex_trade\<lparr>exit_date := Some 107, exit_price := Some 30,
     holding_days := Some 7, pnl := Some 10\<rparr>"

definition ex_closed :: BacktestEngine where
  "ex_closed = ex_engine\<lparr>closed_trades := [ex_closed_trade]\<rparr>"

definition naive_frame :: "hist \<Rightarrow> DataFrame" where
  "naive_frame h = \<lparr>df_tz = None, df_rows = h\<rparr>"

definition ex_hist :: hist where
  "ex_hist = [(timedelta_of_days 10, 40), (timedelta_of_days 11, 41), (timedelta_of_days 14, 44)]"

definition zero_day_hist :: hist where
  "zero_day_hist = map (\<lambda>(i, p). (timedelta_of_days i, p))
     [(356,100),(357,100),(358,100),(359,100),(360,100),(361,100),(362,100),(363,100),(364,100),(365,90)]"

definition zero_day_trade :: Trade where
  "zero_day_trade = \<lparr>ticker = ''T'', company_name = ''T'', entry_date = 365,
              entry_price = 90, shares = 5 / 9, target_price = 100,
              exit_date = Some 365, exit_price = Some 90,
              holding_days = Some 0, pnl = Some 0\<rparr>"

definition zero_day_result :: BacktestResult where
  "zero_day_result = \<lparr>trades = [zero_day_trade],
          total_pnl = 0, total_invested = 50, total_trades = 1,
          winning_trades = 0, losing_trades = 0, still_open = 0,
          avg_holding_days = 0, holding_days_distribution = []\<rparr>"

definition c5_series :: hist where
  "c5_series = map (\<lambda>(i, p). (timedelta_of_days i, p))
     [(0,100),(1,100),(2,100),(3,100),(4,100),(5,90),(6,100),(7,100),(8,100),(9,100),(10,100)]"

definition c5_date :: datetime where
  "c5_date = timedelta_of_days 10 + 3600000000"

definition reopen_hist :: hist where
  "reopen_hist = map (\<lambda>(i, p). (timedelta_of_days i, p))
     [(-9,100),(-8,100),(-7,100),(-6,100),(-5,100),(-4,100),(-3,100),(-2,100),(-1,100),(0,90),
      (1,120),(2,120),(3,120),(4,120),(5,120),(6,120),(7,105)]"

definition reopen_engine :: BacktestEngine where
  "reopen_engine = (init_engine 1 50 7)\<lparr>all_historical_data := [(''T'', naive_frame reopen_hist)]\<rparr>"

definition reopen_first :: Trade where
  "reopen_first = \<lparr>ticker = ''T'', company_name = ''T'', entry_date = 0,
     entry_price = 90, shares = 5 / 9, target_price = 100,
     exit_date = None, exit_price = None, holding_days = None, pnl = None\<rparr>"

definition reopen_second :: Trade where
  "reopen_second = \<lparr>ticker = ''T'', company_name = ''T'', entry_date = 7,
     entry_price = 105, shares = 10 / 21, target_price = 120,
     exit_date = None, exit_price = None, holding_days = None, pnl = None\<rparr>"

definition reopen_before :: BacktestEngine where
  "reopen_before = reopen_engine\<lparr>open_positions := [(''T'', reopen_first)]\<rparr>"

definition reopen_after :: BacktestEngine where
  "reopen_after = reopen_engine\<lparr>open_positions := [(''T'', reopen_second)],
     closed_trades := [reopen_first\<lparr>exit_date := Some 7, exit_price := Some 105,
        holding_days := Some 7, pnl := Some (25 / 3)\<rparr>]\<rparr>"

definition cents_hist :: hist where
  "cents_hist = map (\<lambda>(i, p). (timedelta_of_days i, p))
     [(0, 100126 / 1000), (1, 100126 / 1000), (2, 100126 / 1000), (3, 100126 / 1000),
      (4, 100126 / 1000), (5, 100126 / 1000), (6, 100126 / 1000), (7, 100126 / 1000),
      (8, 100126 / 1000), (9, 90), (16, 100128 / 1000)]"

definition cents_engine :: BacktestEngine where
  "cents_engine = (init_engine 1 50 7)\<lparr>all_historical_data := [(''T'', naive_frame cents_hist)]\<rparr>"

definition cents_opened :: BacktestEngine where
  "cents_opened = cents_engine\<lparr>open_positions :=
     [(''T'', \<lparr>ticker = ''T'', company_name = ''T'', entry_date = 9,
        entry_price = 90, shares = 5 / 9, target_price = 10013 / 100,
        exit_date = None, exit_price = None, holding_days = None, pnl = None\<rparr>)]\<rparr>"

definition cents_perf :: WorstPerformance where
  "cents_perf = \<lparr>return_pct = Finite (- (1011 / 100)), start_date = 4, end_date = 9,
     start_price = 10013 / 100, end_price = 90\<rparr>"

definition cents_info :: stock_info where
  "cents_info = \<lparr>info_ticker = ''T'', info_return_pct = Finite (- (1011 / 100)),
     info_entry_price = 90, info_target_price = 10013 / 100, info_company_name = ''T''\<rparr>"

definition cents_targets :: "BacktestEngine \<Rightarrow> bool" where
  "cents_targets e \<longleftrightarrow>
     list_all (\<lambda>p. is_cents (target_price (snd p))) (open_positions e) \<and>
     list_all (\<lambda>t. is_cents (target_price t)) (closed_trades e)"



section \<open>The invariant of the position lifecycle\<close>

lemma update_absent: "k \<notin> fst ` set al \<Longrightarrow> AList.update k v al = al @ [(k, v)]"
  by (induction al) auto

lemma open_position_cases:
  assumes "open_position si d e = Inr e'"
  shows "e' = e \<or>
    (info_ticker si \<notin> fst ` set (open_positions e) \<and>
     info_entry_price si < info_target_price si \<and> info_entry_price si \<noteq> 0 \<and>
     e' = e\<lparr>open_positions := open_positions e @
        [(info_ticker si,
          \<lparr>ticker = info_ticker si, company_name = info_company_name si,
           entry_date = strftime_ymd d, entry_price = info_entry_price si,
           shares = investment_per_trade e / info_entry_price si,
           target_price = info_target_price si,
           exit_date = None, exit_price = None, holding_days = None, pnl = None\<rparr>)]\<rparr>)"
  using assms by (auto simp: open_position_def update_absent split: if_splits)

lemma close_position_cases:
  assumes "close_position np tk xp xd e = Inr e'"
  shows "(map_of (open_positions e) tk = None \<and> e' = e) \<or>
    (\<exists>t. map_of (open_positions e) tk = Some t \<and>
       e' = e\<lparr>closed_trades := closed_trades e @
               [t\<lparr>exit_date := Some (strftime_ymd xd), exit_price := Some xp,
                  holding_days := Some (timedelta_days (xd - strptime_ymd (entry_date t))),
                  pnl := Some (shares t * (xp - entry_price t))\<rparr>],
             open_positions := AList.delete tk (open_positions e)\<rparr>)"
  using assms by (auto simp: close_position_def Let_def split: option.splits if_splits)

lemma open_position_ok:
  assumes "engine_ok e" and "open_position si d e = Inr e'"
  shows "engine_ok e'"
  using open_position_cases [OF assms(2)] assms(1)
  by (auto simp: engine_ok_def open_trade_ok_def)

lemma list_all_delete: "list_all P al \<Longrightarrow> list_all P (AList.delete k al)"
  by (simp add: AList.delete_eq list_all_iff)

lemma close_position_ok:
  assumes ok: "engine_ok e" and cl: "close_position np tk xp xd e = Inr e'"
  shows "engine_ok e'"
proof -
  from close_position_cases [OF cl] show ?thesis
  proof (elim disjE exE conjE)
    assume "e' = e"
    with ok show ?thesis by simp
  next
    fix t
    assume t: "map_of (open_positions e) tk = Some t"
      and e': "e' = e\<lparr>closed_trades := closed_trades e @
               [t\<lparr>exit_date := Some (strftime_ymd xd), exit_price := Some xp,
                  holding_days := Some (timedelta_days (xd - strptime_ymd (entry_date t))),
                  pnl := Some (shares t * (xp - entry_price t))\<rparr>],
             open_positions := AList.delete tk (open_positions e)\<rparr>"
    from t have "(tk, t) \<in> set (open_positions e)"
      by (rule map_of_SomeD)
    with ok have "entry_price t < target_price t"
      by (auto simp: engine_ok_def list_all_iff open_trade_ok_def)
    then have new: "closed_trade_ok
        (t\<lparr>exit_date := Some (strftime_ymd xd), exit_price := Some xp,
           holding_days := Some (timedelta_days (xd - strptime_ymd (entry_date t))),
           pnl := Some (shares t * (xp - entry_price t))\<rparr>)"
      by (simp add: closed_trade_ok_def)
    from ok have d: "distinct (map fst (AList.delete tk (open_positions e)))"
      by (simp add: engine_ok_def AList.distinct_delete)
    from ok have o: "list_all (\<lambda>(k, t). open_trade_ok (investment_per_trade e) k t)
        (AList.delete tk (open_positions e))"
      by (simp add: engine_ok_def list_all_delete)
    from ok have c: "list_all closed_trade_ok (closed_trades e)"
      by (simp add: engine_ok_def)
    from d o c new show ?thesis
      by (simp add: engine_ok_def e')
  qed
qed

lemma close_all_ok:
  "engine_ok e \<Longrightarrow> close_all cs e = Inr e' \<Longrightarrow> engine_ok e'"
proof (induction cs e rule: close_all.induct)
  case (1 e)
  then show ?case by simp
next
  case (2 tk xp xd rest e)
  then show ?case
    by (auto split: sum.splits dest: close_position_ok)
qed

lemma update_open_positions_ok:
  "engine_ok e \<Longrightarrow> update_open_positions d e = Inr e' \<Longrightarrow> engine_ok e'"
  by (auto simp: update_open_positions_def split: sum.splits dest: close_all_ok)

lemma apply_op_ok:
  "engine_ok e \<Longrightarrow> apply_op call e = Inr e' \<Longrightarrow> engine_ok e'"
  by (cases call)
    (auto dest: open_position_ok close_position_ok update_open_positions_ok)

lemma apply_ops_ok:
  "engine_ok e \<Longrightarrow> apply_ops calls e = Inr e' \<Longrightarrow> engine_ok e'"
proof (induction calls arbitrary: e)
  case Nil
  then show ?case by simp
next
  case (Cons call calls)
  then show ?case
    by (auto split: sum.splits dest: apply_op_ok)
qed

lemma empty_engine_ok:
  "open_positions e = [] \<Longrightarrow> closed_trades e = [] \<Longrightarrow> engine_ok e"
  by (simp add: engine_ok_def)

section \<open>Claims on the position lifecycle\<close>

lemmas ex_defs = ex_info_def ex_info_low_def ex_engine_def ex_entry_dt_def ex_exit_dt_def
  ex_trade_def ex_opened_def init_engine_def timedelta_of_days_def usec_per_day_def
  strftime_ymd_def strptime_ymd_def timedelta_days_def

lemma ex_open: "open_position ex_info ex_entry_dt ex_engine = Inr ex_opened"
  by (simp add: ex_defs open_position_def)

lemma ex_calls:
  "apply_ops [Open ex_info ex_entry_dt, Open ex_info_low ex_entry_dt, Open ex_info ex_exit_dt]
     ex_engine = Inr ex_opened"
  by (simp add: ex_defs open_position_def)

lemma keys_tickers:
  "list_all (\<lambda>(k, t). open_trade_ok a k t) al \<Longrightarrow> map (\<lambda>(k, t). ticker t) al = map fst al"
  by (induction al) (auto simp: open_trade_ok_def)


text \<open>
  Claim C1. From the initial state of the engine (no open position, empty ledger), after
  every sequence of open, update and close calls that returns, the keys of the
  open-position map are pairwise distinct and so are the tickers of the open trades; and
  opening a candidate whose ticker has an open trade returns the state unchanged.
\<close>

theorem single_position_per_ticker:
  assumes "open_positions init = []" and "closed_trades init = []"
    and "apply_ops calls init = Inr e"
  shows "distinct (map fst (open_positions e)) \<and>
         distinct (map (\<lambda>(k, t). ticker t) (open_positions e)) \<and>
         (\<forall>si d. info_ticker si \<in> fst ` set (open_positions e) \<longrightarrow>
                 open_position si d e = Inr e)"
proof (intro conjI)
  have ok: "engine_ok e"
    using assms by (blast intro: apply_ops_ok empty_engine_ok)
  then show keys: "distinct (map fst (open_positions e))"
    by (simp add: engine_ok_def)
  have "map (\<lambda>(k, t). ticker t) (open_positions e) = map fst (open_positions e)"
    by (rule keys_tickers [of "investment_per_trade e"])
      (use ok in \<open>simp add: engine_ok_def\<close>)
  with keys show "distinct (map (\<lambda>(k, t). ticker t) (open_positions e))"
    by (simp only:)
  show "\<forall>si d. info_ticker si \<in> fst ` set (open_positions e) \<longrightarrow>
      open_position si d e = Inr e"
    by (simp add: open_position_def)
qed

theorem single_position_per_ticker_witness:
  "open_positions ex_engine = [] \<and> closed_trades ex_engine = [] \<and>
   apply_ops [Open ex_info ex_entry_dt, Open ex_info_low ex_entry_dt, Open ex_info ex_exit_dt]
     ex_engine = Inr ex_opened \<and>
   map fst (open_positions ex_opened) = [''ACME''] \<and>
   distinct (map fst (open_positions ex_opened)) \<and>
   open_position ex_info ex_exit_dt ex_opened = Inr ex_opened"
proof -
  have a: "open_positions ex_engine = []" and b: "closed_trades ex_engine = []"
    by (simp_all add: ex_defs)
  have c: "info_ticker ex_info \<in> fst ` set (open_positions ex_opened)"
    by (simp add: ex_defs)
  from single_position_per_ticker [OF a b ex_calls] c a b ex_calls show ?thesis
    by (simp add: ex_opened_def)
qed

text \<open>
  Claim C2. A candidate whose target price is at most its entry price is skipped: the
  open call returns the state unchanged and does not raise. Every entry of the map that
  an open call adds has its target above its entry price, and from the initial state
  every trade in the open-position map and in the ledger has its target above its entry
  price.
\<close>

theorem target_guard:
  "(info_target_price si \<le> info_entry_price si \<longrightarrow> open_position si d e = Inr e) \<and>
   (open_position si d e = Inr e' \<longrightarrow>
      (\<forall>p \<in> set (open_positions e').
         p \<in> set (open_positions e) \<or> entry_price (snd p) < target_price (snd p))) \<and>
   (open_positions init = [] \<and> closed_trades init = [] \<and> apply_ops calls init = Inr fin \<longrightarrow>
      (\<forall>p \<in> set (open_positions fin). entry_price (snd p) < target_price (snd p)) \<and>
      (\<forall>t \<in> set (closed_trades fin). entry_price t < target_price t))"
proof (intro conjI impI)
  assume "info_target_price si \<le> info_entry_price si"
  then show "open_position si d e = Inr e"
    by (simp add: open_position_def)
next
  assume "open_position si d e = Inr e'"
  from open_position_cases [OF this]
  show "\<forall>p \<in> set (open_positions e').
          p \<in> set (open_positions e) \<or> entry_price (snd p) < target_price (snd p)"
    by auto
next
  assume h: "open_positions init = [] \<and> closed_trades init = [] \<and> apply_ops calls init = Inr fin"
  then have ok: "engine_ok fin"
    by (blast intro: apply_ops_ok empty_engine_ok)
  then show "\<forall>p \<in> set (open_positions fin). entry_price (snd p) < target_price (snd p)"
    by (auto simp: engine_ok_def list_all_iff open_trade_ok_def)
  from ok show "\<forall>t \<in> set (closed_trades fin). entry_price t < target_price t"
    by (auto simp: engine_ok_def list_all_iff closed_trade_ok_def)
qed

theorem target_guard_witness:
  "info_target_price ex_info_low \<le> info_entry_price ex_info_low \<and>
   open_position ex_info_low ex_entry_dt ex_engine = Inr ex_engine \<and>
   open_positions ex_engine = [] \<and> closed_trades ex_engine = [] \<and>
   apply_ops [Open ex_info ex_entry_dt, Open ex_info_low ex_entry_dt, Open ex_info ex_exit_dt]
     ex_engine = Inr ex_opened \<and>
   list_all (\<lambda>p. entry_price (snd p) < target_price (snd p)) (open_positions ex_opened)"
proof -
  have a: "open_positions ex_engine = []" and b: "closed_trades ex_engine = []"
    by (simp_all add: ex_defs)
  have c: "info_target_price ex_info_low \<le> info_entry_price ex_info_low"
    by (simp add: ex_defs)
  note tg = target_guard [where si = ex_info_low and d = ex_entry_dt and e = ex_engine
      and e' = ex_engine and init = ex_engine and fin = ex_opened
      and calls = "[Open ex_info ex_entry_dt, Open ex_info_low ex_entry_dt, Open ex_info ex_exit_dt]"]
  from tg c have p1: "open_position ex_info_low ex_entry_dt ex_engine = Inr ex_engine"
    by blast
  from tg a b ex_calls
  have p2: "\<forall>p \<in> set (open_positions ex_opened). entry_price (snd p) < target_price (snd p)"
    by blast
  from p2
  have p3: "list_all (\<lambda>p. entry_price (snd p) < target_price (snd p)) (open_positions ex_opened)"
    by (simp only: list_all_iff)
  from a b c p1 p3 ex_calls show ?thesis
    by blast
qed

section \<open>Closing a position\<close>


lemma close_position_absent:
  "tk \<notin> fst ` set (open_positions e) \<Longrightarrow> close_position np tk xp xd e = Inr e"
  by (simp add: close_position_def map_of_eq_None_iff [THEN iffD2])

lemma close_position_removes:
  assumes "close_position np tk xp xd e = Inr e'"
  shows "tk \<notin> fst ` set (open_positions e')"
proof -
  from close_position_cases [OF assms] show ?thesis
  proof (elim disjE exE conjE)
    assume "map_of (open_positions e) tk = None" and "e' = e"
    then show ?thesis by (simp add: map_of_eq_None_iff)
  next
    fix t
    assume "e' = e\<lparr>closed_trades := closed_trades e @
               [t\<lparr>exit_date := Some (strftime_ymd xd), exit_price := Some xp,
                  holding_days := Some (timedelta_days (xd - strptime_ymd (entry_date t))),
                  pnl := Some (shares t * (xp - entry_price t))\<rparr>],
             open_positions := AList.delete tk (open_positions e)\<rparr>"
    then show ?thesis
      using AList.delete_notin_dom [of tk "open_positions e"] by simp
  qed
qed

lemma close_position_ledger:
  "close_position np tk xp xd e = Inr e' \<Longrightarrow> \<exists>new. closed_trades e' = closed_trades e @ new"
  by (drule close_position_cases) auto

lemma close_all_ledger:
  "close_all cs e = Inr e' \<Longrightarrow> \<exists>new. closed_trades e' = closed_trades e @ new"
proof (induction cs e rule: close_all.induct)
  case (1 e)
  then show ?case by simp
next
  case (2 tk xp xd rest e)
  then obtain e1 where c: "close_position True tk xp xd e = Inr e1"
    and r: "close_all rest e1 = Inr e'"
    by (auto split: sum.splits)
  from close_position_ledger [OF c] "2.IH" [OF c r] show ?case
    by auto
qed

lemma apply_op_ledger:
  "apply_op call e = Inr e' \<Longrightarrow> \<exists>new. closed_trades e' = closed_trades e @ new"
proof (cases call)
  case (Open si d)
  assume "apply_op call e = Inr e'"
  with Open have "open_position si d e = Inr e'" by simp
  from open_position_cases [OF this] show ?thesis by auto
next
  case (Update d)
  assume "apply_op call e = Inr e'"
  with Update show ?thesis
    by (auto simp: update_open_positions_def split: sum.splits dest: close_all_ledger)
next
  case (Close np tk xp xd)
  assume "apply_op call e = Inr e'"
  with Close show ?thesis
    by (simp add: close_position_ledger)
qed

lemma apply_ops_ledger:
  "apply_ops calls e = Inr e' \<Longrightarrow> \<exists>new. closed_trades e' = closed_trades e @ new"
proof (induction calls arbitrary: e)
  case Nil
  then show ?case by simp
next
  case (Cons call calls)
  then obtain e1 where c: "apply_op call e = Inr e1" and r: "apply_ops calls e1 = Inr e'"
    by (auto split: sum.splits)
  from apply_op_ledger [OF c] Cons.IH [OF r] show ?case
    by auto
qed

lemma ex_close: "close_position False ''ACME'' 30 ex_exit_dt ex_opened = Inr ex_closed"
  by (simp add: ex_defs ex_closed_def ex_closed_trade_def close_position_def)

text \<open>
  Claim C3. Closing a ticker that has no open trade returns the state unchanged: the
  open-position map and the ledger stay as they are. A close that returns leaves the
  ticker without an open trade, so a second close of it is such a no-op. The ledger only
  grows: no call removes or changes a trade in it. From the initial state, a trade in the
  open-position map has no exit data and a trade in the ledger has all of it, so a closed
  trade is never open again.
\<close>

theorem close_exactly_once:
  "(tk \<notin> fst ` set (open_positions e) \<longrightarrow> close_position np tk xp xd e = Inr e) \<and>
   (close_position np tk xp xd e = Inr e' \<longrightarrow>
      tk \<notin> fst ` set (open_positions e') \<and>
      close_position np' tk xp' xd' e' = Inr e') \<and>
   (apply_ops calls e = Inr fin \<longrightarrow> (\<exists>new. closed_trades fin = closed_trades e @ new)) \<and>
   (open_positions init = [] \<and> closed_trades init = [] \<and> apply_ops calls' init = Inr st \<longrightarrow>
      list_all (\<lambda>p. exit_date (snd p) = None \<and> exit_price (snd p) = None \<and>
                    holding_days (snd p) = None \<and> pnl (snd p) = None) (open_positions st) \<and>
      list_all (\<lambda>t. exit_date t \<noteq> None \<and> exit_price t \<noteq> None \<and>
                    holding_days t \<noteq> None \<and> pnl t \<noteq> None) (closed_trades st))"
proof (intro conjI impI)
  assume "tk \<notin> fst ` set (open_positions e)"
  then show "close_position np tk xp xd e = Inr e"
    by (rule close_position_absent)
next
  assume c: "close_position np tk xp xd e = Inr e'"
  then show gone: "tk \<notin> fst ` set (open_positions e')"
    by (rule close_position_removes)
  then show "close_position np' tk xp' xd' e' = Inr e'"
    by (rule close_position_absent)
next
  assume "apply_ops calls e = Inr fin"
  then show "\<exists>new. closed_trades fin = closed_trades e @ new"
    by (rule apply_ops_ledger)
next
  assume "open_positions init = [] \<and> closed_trades init = [] \<and> apply_ops calls' init = Inr st"
  then have ok: "engine_ok st"
    by (blast intro: apply_ops_ok empty_engine_ok)
  then show "list_all (\<lambda>p. exit_date (snd p) = None \<and> exit_price (snd p) = None \<and>
                    holding_days (snd p) = None \<and> pnl (snd p) = None) (open_positions st)"
    by (auto simp: engine_ok_def list_all_iff open_trade_ok_def)
  from ok show "list_all (\<lambda>t. exit_date t \<noteq> None \<and> exit_price t \<noteq> None \<and>
                    holding_days t \<noteq> None \<and> pnl t \<noteq> None) (closed_trades st)"
    by (auto simp: engine_ok_def list_all_iff closed_trade_ok_def)
qed

theorem close_exactly_once_witness:
  "''ACME'' \<notin> fst ` set (open_positions ex_engine) \<and>
   close_position False ''ACME'' 30 ex_exit_dt ex_engine = Inr ex_engine \<and>
   close_position False ''ACME'' 30 ex_exit_dt ex_opened = Inr ex_closed \<and>
   ''ACME'' \<notin> fst ` set (open_positions ex_closed) \<and>
   close_position True ''ACME'' 31 ex_exit_dt ex_closed = Inr ex_closed \<and>
   open_positions ex_engine = [] \<and> closed_trades ex_engine = [] \<and>
   apply_ops [Open ex_info ex_entry_dt, Close False ''ACME'' 30 ex_exit_dt,
              Close True ''ACME'' 31 ex_exit_dt] ex_engine = Inr ex_closed \<and>
   closed_trades ex_closed = closed_trades ex_engine @ [ex_closed_trade] \<and>
   list_all (\<lambda>t. exit_date t \<noteq> None \<and> exit_price t \<noteq> None \<and>
                 holding_days t \<noteq> None \<and> pnl t \<noteq> None) (closed_trades ex_closed)"
proof -
  have a: "open_positions ex_engine = []" and b: "closed_trades ex_engine = []"
    by (simp_all add: ex_defs)
  have n: "''ACME'' \<notin> fst ` set (open_positions ex_engine)"
    by (simp add: a)
  note once1 = close_exactly_once [where tk = "''ACME''" and e = ex_engine and np = False
      and xp = 30 and xd = ex_exit_dt]
  from once1 n have p1: "close_position False ''ACME'' 30 ex_exit_dt ex_engine = Inr ex_engine"
    by blast
  note once2 = close_exactly_once [where tk = "''ACME''" and e = ex_opened and np = False
      and xp = 30 and xd = ex_exit_dt and e' = ex_closed and np' = True and xp' = 31
      and xd' = ex_exit_dt and init = ex_engine and st = ex_closed
      and calls' = "[Open ex_info ex_entry_dt, Close False ''ACME'' 30 ex_exit_dt,
              Close True ''ACME'' 31 ex_exit_dt]"]
  from once2 ex_close have p2: "''ACME'' \<notin> fst ` set (open_positions ex_closed)"
    and p3: "close_position True ''ACME'' 31 ex_exit_dt ex_closed = Inr ex_closed"
    by blast+
  have run: "apply_ops [Open ex_info ex_entry_dt, Close False ''ACME'' 30 ex_exit_dt,
              Close True ''ACME'' 31 ex_exit_dt] ex_engine = Inr ex_closed"
    by (simp add: ex_open ex_close p3)
  from once2 a b run
  have p4: "list_all (\<lambda>t. exit_date t \<noteq> None \<and> exit_price t \<noteq> None \<and>
                 holding_days t \<noteq> None \<and> pnl t \<noteq> None) (closed_trades ex_closed)"
    by blast
  have p5: "closed_trades ex_closed = closed_trades ex_engine @ [ex_closed_trade]"
    by (simp add: ex_closed_def b)
  from a b n p1 p2 p3 p4 p5 run ex_close show ?thesis
    by blast
qed



section \<open>Price lookup and the empty run\<close>












text \<open>
  Claim C9. When the list of candidate tickers is empty, or the dictionary of fetched
  histories is empty, the run returns the empty result without entering the date loop
  and without raising: no trades, and every count, sum and the distribution zero or
  empty. This holds for every configuration, also one whose date loop would not end.
\<close>

theorem run_empty_short_circuit:
  assumes "candidate_tickers = [] \<or> fetched = []"
  shows "run pc candidate_tickers fetched now1 now2 e = Some (Inr create_empty_result) \<and>
         trades create_empty_result = [] \<and> total_pnl create_empty_result = 0 \<and>
         total_invested create_empty_result = 0 \<and> total_trades create_empty_result = 0 \<and>
         winning_trades create_empty_result = 0 \<and> losing_trades create_empty_result = 0 \<and>
         still_open create_empty_result = 0 \<and> avg_holding_days create_empty_result = 0 \<and>
         holding_days_distribution create_empty_result = []"
  using assms by (auto simp: run_def create_empty_result_def)

theorem run_empty_short_circuit_witness:
  "run exact_pct_change [] [(''ACME'', naive_frame ex_hist)] (timedelta_of_days 2000)
     (timedelta_of_days 2000) (init_engine 5 50 0) = Some (Inr create_empty_result) \<and>
   run exact_pct_change [''ACME''] [] (timedelta_of_days 2000) (timedelta_of_days 2000)
     (init_engine 5 50 7) = Some (Inr create_empty_result) \<and>
   total_trades create_empty_result = 0"
  using run_empty_short_circuit [of "[]" "[(''ACME'', naive_frame ex_hist)]" exact_pct_change
      "timedelta_of_days 2000" "timedelta_of_days 2000" "init_engine 5 50 0"]
    run_empty_short_circuit [of "[''ACME'']" "[]" exact_pct_change "timedelta_of_days 2000"
      "timedelta_of_days 2000" "init_engine 5 50 7"]
  by simp

section \<open>The holding-period histogram\<close>

lemma zero_day_run:
  "run exact_pct_change [''T''] [(''T'', naive_frame zero_day_hist)]
     (timedelta_of_days 365 + 3600000000) (timedelta_of_days 365 + 3700000000)
     (init_engine 1 50 5) = Some (Inr zero_day_result)"
  by code_simp

text \<open>
  Claim C7, evaluated where the code departs from it. With a lookback of one year and a
  screening every 5 days the last screening date is the end date; the position opened
  there is closed by the final close on the same calendar day, with 0 holding days. The
  table of ranges puts 0 in the first range, and the trade has a holding-days value, but
  the comprehension that collects the values drops it: the distribution is empty and its
  counts sum to 0, not to 1.
\<close>

theorem histogram_omits_zero_day_trade:
  "run exact_pct_change [''T''] [(''T'', naive_frame zero_day_hist)]
     (timedelta_of_days 365 + 3600000000) (timedelta_of_days 365 + 3700000000)
     (init_engine 1 50 5) = Some (Inr zero_day_result) \<and>
   map holding_days (trades zero_day_result) = [Some 0] \<and>
   still_open zero_day_result = 0 \<and>
   label_of ranges 0 = Some ''0-7 days'' \<and>
   holding_days_distribution zero_day_result = [] \<and>
   sum_list (map snd (holding_days_distribution zero_day_result)) = 0 \<and>
   length (filter (\<lambda>t. holding_days t \<noteq> None) (trades zero_day_result)) = 1"
  using zero_day_run
  by (simp add: zero_day_result_def zero_day_trade_def ranges_def)

section \<open>The worst-window scenario and the order of a screening step\<close>

lemma c5_tail_eval:
  "calculate_worst_5day_performance exact_pct_change
     (tail_rows 10 (filter (\<lambda>row. fst row \<le> c5_date) c5_series)) =
   Some \<lparr>return_pct = Finite 0, start_date = 1, end_date = 6,
         start_price = 100, end_price = 100\<rparr>"
  by code_simp

lemma c5_full_eval:
  "calculate_worst_5day_performance exact_pct_change c5_series =
   Some \<lparr>return_pct = Finite (- 10), start_date = 0, end_date = 5,
         start_price = 100, end_price = 90\<rparr>"
  by code_simp

lemma c5_candidate:
  "candidate_of exact_pct_change c5_date (''T'', naive_frame c5_series) = Inr None"
  by code_simp

lemma reopen_step0: "screening_step exact_pct_change 0 reopen_engine = Inr reopen_before"
  by code_simp

lemma reopen_to_close:
  "positions_to_close (timedelta_of_days 7) reopen_before =
     Inr [(''T'', 105, timedelta_of_days 7)]"
  by code_simp

lemma reopen_update: "update_open_positions (timedelta_of_days 7) reopen_before =
   Inr (reopen_engine\<lparr>closed_trades := [reopen_first\<lparr>exit_date := Some 7, exit_price := Some 105,
        holding_days := Some 7, pnl := Some (25 / 3)\<rparr>]\<rparr>)"
  by code_simp

lemma reopen_step7:
  "screening_step exact_pct_change (timedelta_of_days 7) reopen_before = Inr reopen_after"
  by code_simp

lemma reopen_loop:
  "simulate_screenings exact_pct_change (timedelta_of_days 365) reopen_engine
     = Some (Inr reopen_after)"
  by code_simp

text \<open>
  Claim C5, as stated, fails: on the trailing 10 of the 11 observations the 90 point is
  the fifth row, which has no row five places before it, so no window ends there. The
  worst window is the first of the flat ones, with return 0, and its end price is 100.
\<close>

theorem worst_window_scenario_counterexample:
  "\<not> (\<exists>perf. calculate_worst_5day_performance exact_pct_change
          (tail_rows 10 (filter (\<lambda>row. fst row \<le> c5_date) c5_series)) = Some perf \<and>
        (return_pct perf < Finite 0 \<or> end_price perf = 90 \<or> end_date perf = 5))"
  using c5_tail_eval by (simp add: less_pyfloat_def)

text \<open>
  Claim C5, amended. The series has 11 points. The evaluator applied to all of them
  returns a worst 5-day return of -10.0 percent for the window from the first point (100)
  to the 90 point. As the selector invokes it, on the trailing 10 observations, it returns
  a return of 0 for the window between the second and the seventh point (both 100), and
  the ticker is not a candidate.
\<close>

theorem worst_window_scenario:
  "length c5_series = 11 \<and>
   calculate_worst_5day_performance exact_pct_change c5_series =
     Some \<lparr>return_pct = Finite (- 10), start_date = 0, end_date = 5,
           start_price = 100, end_price = 90\<rparr> \<and>
   calculate_worst_5day_performance exact_pct_change
     (tail_rows 10 (filter (\<lambda>row. fst row \<le> c5_date) c5_series)) =
     Some \<lparr>return_pct = Finite 0, start_date = 1, end_date = 6,
           start_price = 100, end_price = 100\<rparr> \<and>
   candidate_of exact_pct_change c5_date (''T'', naive_frame c5_series) = Inr None"
  using c5_tail_eval c5_full_eval c5_candidate
  by (simp add: c5_series_def)

text \<open>
  Claim C6, as stated, fails. With a lookback of one year and a weekly screening the loop
  opens a position in T on day 0 (entry 90, target 100). On day 7 the price is 105: the
  update closes the position, the selector then picks T again for its fall from 120 to
  105, and a new position in T is opened on day 7 (entry 105, target 120).
\<close>

theorem no_same_day_reopen_counterexample:
  "open_positions reopen_engine = [] \<and> closed_trades reopen_engine = [] \<and>
   simulate_screenings exact_pct_change (timedelta_of_days 365) reopen_engine
     = Some (Inr reopen_after) \<and>
   screening_step exact_pct_change 0 reopen_engine = Inr reopen_before \<and>
   screening_step exact_pct_change (timedelta_of_days 7) reopen_before = Inr reopen_after \<and>
   map (\<lambda>p. (fst p, entry_date (snd p))) (open_positions reopen_before) = [(''T'', 0)] \<and>
   map (\<lambda>t. (ticker t, entry_date t, exit_date t)) (closed_trades reopen_after)
     = [(''T'', 0, Some 7)] \<and>
   map (\<lambda>p. (fst p, entry_date (snd p))) (open_positions reopen_after) = [(''T'', 7)]"
  using reopen_loop reopen_step0 reopen_step7
  by (simp add: reopen_engine_def reopen_before_def reopen_after_def reopen_first_def
      reopen_second_def init_engine_def)

lemma close_position_open:
  assumes "close_position np tk xp xd e = Inr e'"
  shows "open_positions e' = AList.delete tk (open_positions e)"
proof -
  from close_position_cases [OF assms] show ?thesis
  proof (elim disjE exE conjE)
    assume "map_of (open_positions e) tk = None" and "e' = e"
    then show ?thesis by (simp add: map_of_eq_None_iff)
  next
    fix t
    assume "e' = e\<lparr>closed_trades := closed_trades e @
               [t\<lparr>exit_date := Some (strftime_ymd xd), exit_price := Some xp,
                  holding_days := Some (timedelta_days (xd - strptime_ymd (entry_date t))),
                  pnl := Some (shares t * (xp - entry_price t))\<rparr>],
             open_positions := AList.delete tk (open_positions e)\<rparr>"
    then show ?thesis by simp
  qed
qed

lemma close_all_open:
  "close_all cs e = Inr e' \<Longrightarrow>
     open_positions e' = filter (\<lambda>p. fst p \<notin> fst ` set cs) (open_positions e)"
proof (induction cs e rule: close_all.induct)
  case (1 e)
  then show ?case by simp
next
  case (2 tk xp xd rest e)
  then obtain e1 where c: "close_position True tk xp xd e = Inr e1"
    and r: "close_all rest e1 = Inr e'"
    by (auto split: sum.splits)
  from "2.IH" [OF c r] close_position_open [OF c] show ?case
    by (auto simp: AList.delete_eq intro: filter_cong)
qed

lemma close_all_returns: "\<exists>e'. close_all cs e = Inr e'"
proof (induction cs e rule: close_all.induct)
  case (1 e)
  then show ?case by simp
next
  case (2 tk xp xd rest e)
  have "\<exists>e1. close_position True tk xp xd e = Inr e1"
    by (simp add: close_position_def Let_def split: option.splits)
  then obtain e1 where c: "close_position True tk xp xd e = Inr e1"
    by blast
  from "2.IH" [OF c] c show ?case
    by simp
qed

lemma open_position_skips:
  "info_ticker si \<in> fst ` set (open_positions e) \<or>
     info_target_price si \<le> info_entry_price si \<Longrightarrow> open_position si d e = Inr e"
  by (auto simp: open_position_def)

lemma open_position_appends:
  assumes "info_ticker si \<notin> fst ` set (open_positions e)"
    and "\<not> info_target_price si \<le> info_entry_price si"
  shows "open_position si d e = Inr e' \<longleftrightarrow>
    info_entry_price si \<noteq> 0 \<and>
    e' = e\<lparr>open_positions := open_positions e @
        [(info_ticker si,
          \<lparr>ticker = info_ticker si, company_name = info_company_name si,
           entry_date = strftime_ymd d, entry_price = info_entry_price si,
           shares = investment_per_trade e / info_entry_price si,
           target_price = info_target_price si,
           exit_date = None, exit_price = None, holding_days = None, pnl = None\<rparr>)]\<rparr>"
  using assms by (auto simp: open_position_def update_absent)

text \<open>
  Claim C6, amended. At every step of the date loop the update (the exit checks) runs
  before the selector and the open: the step returns a state exactly when the exit checks
  on the state before the step return the list of positions to close, these are closed
  (the open positions that remain are the ones not on the list), the selector then
  returns its selection, and the state returned is the one after the update when there
  is no selection, or the selected ticker has an open trade after the update, or its
  target is not above its entry price; otherwise it is the state after the update with
  one trade appended, dated on the screening date. The ledger after the step is the
  ledger after the update, so a position opened at a step is not checked for an exit at
  that step. A ticker whose position the update closed has no open trade after the
  update and is opened again at the same step when the selector picks it with a target
  above its entry price.
\<close>

theorem exits_checked_before_opening:
  "screening_step pc d e = Inr e' \<longleftrightarrow>
     (\<exists>to_close e1 sel.
        positions_to_close d e = Inr to_close \<and>
        close_all to_close e = Inr e1 \<and>
        open_positions e1 = filter (\<lambda>p. fst p \<notin> fst ` set to_close) (open_positions e) \<and>
        screen_for_date pc d e1 = Inr sel \<and>
        closed_trades e' = closed_trades e1 \<and>
        (case sel of
           None \<Rightarrow> e' = e1
         | Some worst \<Rightarrow>
             if info_ticker worst \<in> fst ` set (open_positions e1) \<or>
                info_target_price worst \<le> info_entry_price worst
             then e' = e1
             else info_entry_price worst \<noteq> 0 \<and>
                  e' = e1\<lparr>open_positions := open_positions e1 @
                    [(info_ticker worst,
                      \<lparr>ticker = info_ticker worst, company_name = info_company_name worst,
                       entry_date = strftime_ymd d, entry_price = info_entry_price worst,
                       shares = investment_per_trade e1 / info_entry_price worst,
                       target_price = info_target_price worst,
                       exit_date = None, exit_price = None, holding_days = None,
                       pnl = None\<rparr>)]\<rparr>))"
  (is "?lhs \<longleftrightarrow> ?rhs")
proof
  assume ?lhs
  then obtain to_close e1 sel where p: "positions_to_close d e = Inr to_close"
    and c: "close_all to_close e = Inr e1"
    and s: "screen_for_date pc d e1 = Inr sel"
    and o: "(case sel of None \<Rightarrow> Inr e1 | Some worst \<Rightarrow> open_position worst d e1) = Inr e'"
    by (auto simp: screening_step_def update_open_positions_def split: sum.splits)
  note f = close_all_open [OF c]
  show ?rhs
  proof (cases sel)
    case None
    with p c s o f show ?thesis by auto
  next
    case (Some worst)
    with o have op: "open_position worst d e1 = Inr e'"
      by simp
    show ?thesis
    proof (cases "info_ticker worst \<in> fst ` set (open_positions e1) \<or>
        info_target_price worst \<le> info_entry_price worst")
      case True
      from open_position_skips [OF True, of d] op have "e' = e1"
        by simp
      with p c s f Some True show ?thesis
        by (intro exI [of _ to_close] exI [of _ e1] exI [of _ sel]) simp
    next
      case False
      then have a: "info_ticker worst \<notin> fst ` set (open_positions e1)"
        and b: "\<not> info_target_price worst \<le> info_entry_price worst"
        by simp_all
      from open_position_appends [OF a b, of d e'] op
      have "info_entry_price worst \<noteq> 0 \<and>
        e' = e1\<lparr>open_positions := open_positions e1 @
          [(info_ticker worst,
            \<lparr>ticker = info_ticker worst, company_name = info_company_name worst,
             entry_date = strftime_ymd d, entry_price = info_entry_price worst,
             shares = investment_per_trade e1 / info_entry_price worst,
             target_price = info_target_price worst,
             exit_date = None, exit_price = None, holding_days = None, pnl = None\<rparr>)]\<rparr>"
        by simp
      with p c s f Some False show ?thesis
        by (intro exI [of _ to_close] exI [of _ e1] exI [of _ sel]) simp
    qed
  qed
next
  assume ?rhs
  then obtain to_close e1 sel where p: "positions_to_close d e = Inr to_close"
    and c: "close_all to_close e = Inr e1"
    and s: "screen_for_date pc d e1 = Inr sel"
    and k: "(case sel of
           None \<Rightarrow> e' = e1
         | Some worst \<Rightarrow>
             if info_ticker worst \<in> fst ` set (open_positions e1) \<or>
                info_target_price worst \<le> info_entry_price worst
             then e' = e1
             else info_entry_price worst \<noteq> 0 \<and>
                  e' = e1\<lparr>open_positions := open_positions e1 @
                    [(info_ticker worst,
                      \<lparr>ticker = info_ticker worst, company_name = info_company_name worst,
                       entry_date = strftime_ymd d, entry_price = info_entry_price worst,
                       shares = investment_per_trade e1 / info_entry_price worst,
                       target_price = info_target_price worst,
                       exit_date = None, exit_price = None, holding_days = None,
                       pnl = None\<rparr>)]\<rparr>)"
    by blast
  from p c s have st: "screening_step pc d e =
      (case sel of None \<Rightarrow> Inr e1 | Some worst \<Rightarrow> open_position worst d e1)"
    by (simp add: screening_step_def update_open_positions_def)
  show ?lhs
  proof (cases sel)
    case None
    with k st show ?thesis by simp
  next
    case (Some worst)
    show ?thesis
    proof (cases "info_ticker worst \<in> fst ` set (open_positions e1) \<or>
        info_target_price worst \<le> info_entry_price worst")
      case True
      with k Some have "e' = e1" by simp
      with open_position_skips [OF True, of d] st Some show ?thesis
        by simp
    next
      case False
      then have a: "info_ticker worst \<notin> fst ` set (open_positions e1)"
        and b: "\<not> info_target_price worst \<le> info_entry_price worst"
        by simp_all
      from k Some False open_position_appends [OF a b, of d e']
      have "open_position worst d e1 = Inr e'"
        by simp
      with st Some show ?thesis by simp
    qed
  qed
qed

theorem exits_checked_before_opening_witness:
  "screening_step exact_pct_change (timedelta_of_days 7) reopen_before = Inr reopen_after \<and>
   positions_to_close (timedelta_of_days 7) reopen_before
     = Inr [(''T'', 105, timedelta_of_days 7)] \<and>
   (\<exists>e1 sel. close_all [(''T'', 105, timedelta_of_days 7)] reopen_before = Inr e1 \<and>
      open_positions e1 = [] \<and>
      screen_for_date exact_pct_change (timedelta_of_days 7) e1 = Inr sel \<and>
      closed_trades reopen_after = closed_trades e1 \<and>
      length (open_positions reopen_after) = length (open_positions e1) + 1)"
proof -
  from exits_checked_before_opening
    [of exact_pct_change "timedelta_of_days 7" reopen_before reopen_after] reopen_step7
  obtain to_close e1 sel
    where p: "positions_to_close (timedelta_of_days 7) reopen_before = Inr to_close"
      and c: "close_all to_close reopen_before = Inr e1"
      and f: "open_positions e1
                = filter (\<lambda>p. fst p \<notin> fst ` set to_close) (open_positions reopen_before)"
      and s: "screen_for_date exact_pct_change (timedelta_of_days 7) e1 = Inr sel"
      and l: "closed_trades reopen_after = closed_trades e1"
    by blast
  from p reopen_to_close have t: "to_close = [(''T'', 105, timedelta_of_days 7)]"
    by simp
  with f have o: "open_positions e1 = []"
    by (simp add: reopen_before_def)
  then have "length (open_positions reopen_after) = length (open_positions e1) + 1"
    by (simp add: reopen_after_def)
  with c s l o t reopen_step7 reopen_to_close show ?thesis
    by blast
qed

section \<open>Rounding in the evaluator\<close>

lemma rint_near: "\<bar>of_int (rint y) - y\<bar> \<le> 1 / 2"
proof -
  have "of_int \<lfloor>y\<rfloor> \<le> y" and "y < of_int \<lfloor>y\<rfloor> + 1"
    by linarith+
  then show ?thesis
    by (auto simp: rint_def Let_def)
qed

lemma round2_cents: "is_cents (round2 x)"
  by (simp add: is_cents_def round2_def)

lemma round2_near: "\<bar>round2 x - x\<bar> \<le> 1 / 200"
proof -
  have "\<bar>of_int (rint (x * 100)) - x * 100\<bar> \<le> 1 / 2"
    by (rule rint_near)
  then show ?thesis
    by (simp add: round2_def abs_le_iff field_simps)
qed

lemma round2_pyfloat_cents: "round2_pyfloat x = Finite r \<Longrightarrow> is_cents r"
  by (cases x) (auto simp: round2_cents)

lemma idxmin_from_mem: "idxmin_from best xs \<in> set (best # xs)"
  by (induction best xs rule: idxmin_from.induct) auto

lemma set_map_filter: "set (List.map_filter f xs) = {y. \<exists>x \<in> set xs. f x = Some y}"
  by (induction xs) (auto split: option.splits)

lemma calculate_Some:
  assumes "calculate_worst_5day_performance pc h = Some perf"
  shows "\<exists>i x. 5 \<le> i \<and> i < length h \<and> pc (snd (h ! i)) (snd (h ! (i - 5))) = Some x \<and>
    perf = \<lparr>return_pct = round2_pyfloat x,
            start_date = strftime_ymd (fst (h ! (i - 5))),
            end_date = strftime_ymd (fst (h ! i)),
            start_price = round2 (snd (h ! (i - 5))),
            end_price = round2 (snd (h ! i))\<rparr>"
proof -
  let ?col = "List.map_filter
      (\<lambda>i. map_option (Pair i) (pct_change5 pc (map snd h) i)) [0..<length h]"
  from assms obtain row others where r: "?col = row # others"
    by (auto simp: calculate_worst_5day_performance_def split: if_splits list.splits)
  let ?w = "idxmin_from row others"
  have "?w \<in> set ?col"
    using idxmin_from_mem [of row others] r by simp
  then obtain j where j: "j < length h"
    and m: "map_option (Pair j) (pct_change5 pc (map snd h) j) = Some ?w"
    by (auto simp: set_map_filter)
  from m obtain z where z: "pct_change5 pc (map snd h) j = Some z" and w: "?w = (j, z)"
    by (cases "pct_change5 pc (map snd h) j") auto
  from j z w have i: "fst ?w < length h"
    and v: "pct_change5 pc (map snd h) (fst ?w) = Some (snd ?w)"
    by simp_all
  from v have five: "5 \<le> fst ?w"
    by (auto simp: pct_change5_def split: if_splits)
  with v i have pcv: "pc (snd (h ! fst ?w)) (snd (h ! (fst ?w - 5))) = Some (snd ?w)"
    by (simp add: pct_change5_def)
  from assms r five
  have "perf = \<lparr>return_pct = round2_pyfloat (snd ?w),
            start_date = strftime_ymd (fst (h ! (fst ?w - 5))),
            end_date = strftime_ymd (fst (h ! fst ?w)),
            start_price = round2 (snd (h ! (fst ?w - 5))),
            end_price = round2 (snd (h ! fst ?w))\<rparr>"
    by (auto simp: calculate_worst_5day_performance_def Let_def split: if_splits)
  with i five pcv show ?thesis
    by (intro exI [of _ "fst ?w"] exI [of _ "snd ?w"]) simp
qed

lemma candidate_of_Some:
  assumes "candidate_of pc d entry = Inr (Some c)"
  shows "\<exists>perf. calculate_worst_5day_performance pc
             (tail_rows 10 (filter (\<lambda>row. fst row \<le> d) (df_rows (snd entry)))) = Some perf \<and>
           info_ticker c = fst entry \<and> info_return_pct c = return_pct perf \<and>
           info_target_price c = start_price perf"
proof -
  from assms obtain t where l: "date_in_index_tz (df_tz (snd entry)) d = Inr t"
    by (auto simp: candidate_of_def Let_def split: sum.splits)
  then have "t = d"
    by (auto simp: date_in_index_tz_def tz_localize_def split: option.splits if_splits)
  with assms l show ?thesis
    by (auto simp: candidate_of_def Let_def split: if_splits option.splits sum.splits)
qed

lemma candidate_target_row:
  assumes "candidate_of pc d entry = Inr (Some c)"
  shows "\<exists>row \<in> set (df_rows (snd entry)). info_target_price c = round2 (snd row)"
proof -
  let ?t = "tail_rows 10 (filter (\<lambda>row. fst row \<le> d) (df_rows (snd entry)))"
  from candidate_of_Some [OF assms] obtain perf
    where c: "calculate_worst_5day_performance pc ?t = Some perf"
      and t: "info_target_price c = start_price perf"
    by blast
  from calculate_Some [OF c] obtain i where "5 \<le> i" and "i < length ?t"
    and "start_price perf = round2 (snd (?t ! (i - 5)))"
    by auto
  then have "?t ! (i - 5) \<in> set ?t" and "start_price perf = round2 (snd (?t ! (i - 5)))"
    by simp_all
  moreover have "set ?t \<subseteq> set (df_rows (snd entry))"
    using set_drop_subset [of "length (filter (\<lambda>row. fst row \<le> d) (df_rows (snd entry))) - 10"
        "filter (\<lambda>row. fst row \<le> d) (df_rows (snd entry))"]
    by (auto simp: tail_rows_def)
  ultimately show ?thesis
    using t by auto
qed

lemma collect_candidates_mem:
  "collect_candidates pc d data = Inr cs \<Longrightarrow> c \<in> set cs \<Longrightarrow>
     \<exists>entry \<in> set data. candidate_of pc d entry = Inr (Some c)"
proof (induction data arbitrary: cs)
  case Nil
  then show ?case by simp
next
  case (Cons entry rest)
  from Cons.prems(1) obtain found others
    where f: "candidate_of pc d entry = Inr found"
      and r: "collect_candidates pc d rest = Inr others"
      and cs: "cs = (case found of None \<Rightarrow> others | Some x \<Rightarrow> x # others)"
    by (auto split: sum.splits)
  show ?case
  proof (cases "c \<in> set others")
    case True
    from Cons.IH [OF r True] show ?thesis by auto
  next
    case False
    with cs Cons.prems(2) have "found = Some c"
      by (auto split: option.splits)
    with f show ?thesis by simp
  qed
qed

lemma screen_for_date_Some:
  assumes "screen_for_date pc d e = Inr (Some worst)"
  shows "\<exists>entry \<in> set (all_historical_data e). candidate_of pc d entry = Inr (Some worst)"
proof -
  from assms obtain cs others
    where c: "collect_candidates pc d (all_historical_data e) = Inr cs"
      and s: "sort_key info_return_pct cs = worst # others"
    by (auto simp: screen_for_date_def split: sum.splits list.splits)
  from s have "worst \<in> set (sort_key info_return_pct cs)"
    by simp
  then have "worst \<in> set cs"
    by simp
  with c show ?thesis
    by (rule collect_candidates_mem)
qed

lemma screen_target:
  assumes "screen_for_date pc d e = Inr (Some worst)"
  shows "\<exists>entry \<in> set (all_historical_data e). \<exists>row \<in> set (df_rows (snd entry)).
           info_ticker worst = fst entry \<and> info_target_price worst = round2 (snd row)"
proof -
  from screen_for_date_Some [OF assms] obtain entry
    where m: "entry \<in> set (all_historical_data e)"
      and c: "candidate_of pc d entry = Inr (Some worst)"
    by blast
  from candidate_of_Some [OF c] have "info_ticker worst = fst entry"
    by blast
  with candidate_target_row [OF c] m show ?thesis
    by blast
qed

lemma screen_target_cents:
  "screen_for_date pc d e = Inr (Some worst) \<Longrightarrow> is_cents (info_target_price worst)"
  by (drule screen_target) (auto simp: round2_cents)

lemma collect_to_close_iff:
  "collect_to_close d data ps = Inr cs \<Longrightarrow>
     (tk, xp, xd) \<in> set cs \<longleftrightarrow>
     xd = d \<and> (\<exists>trade h. (tk, trade) \<in> set ps \<and> map_of data tk = Some h \<and>
                  get_price_on_date h d = Inr (Some xp) \<and> target_price trade \<le> xp)"
proof (induction d data ps arbitrary: cs rule: collect_to_close.induct)
  case (1 d data)
  then show ?case by simp
next
  case (2 d data k trade rest)
  show ?case
  proof (cases "map_of data k")
    case None
    with "2.prems" have "collect_to_close d data rest = Inr cs"
      by simp
    from "2.IH"(1) [OF None this] None show ?thesis
      by auto
  next
    case (Some h)
    show ?thesis
    proof (cases "get_price_on_date h d")
      case (Inl err)
      with Some "2.prems" show ?thesis by simp
    next
      case (Inr res)
      show ?thesis
      proof (cases res)
        case None
        with Some Inr "2.prems" have "collect_to_close d data rest = Inr cs"
          by simp
        from "2.IH"(2) [OF Some Inr None this] Some Inr None show ?thesis
          by auto
      next
        case (Some cp)
        with \<open>map_of data k = Some h\<close> Inr "2.prems" obtain others
          where r: "collect_to_close d data rest = Inr others"
            and cs: "cs = (if target_price trade \<le> cp then (k, cp, d) # others else others)"
          by (auto split: sum.splits)
        from "2.IH"(3) [OF \<open>map_of data k = Some h\<close> Inr Some r]
          \<open>map_of data k = Some h\<close> Inr Some cs
        show ?thesis
          by auto
      qed
    qed
  qed
qed

lemma close_position_cents:
  assumes "cents_targets e" and "close_position np tk xp xd e = Inr e'"
  shows "cents_targets e'"
proof -
  from close_position_cases [OF assms(2)] show ?thesis
  proof (elim disjE exE conjE)
    assume "e' = e"
    with assms(1) show ?thesis by simp
  next
    fix t
    assume t: "map_of (open_positions e) tk = Some t"
      and e': "e' = e\<lparr>closed_trades := closed_trades e @
               [t\<lparr>exit_date := Some (strftime_ymd xd), exit_price := Some xp,
                  holding_days := Some (timedelta_days (xd - strptime_ymd (entry_date t))),
                  pnl := Some (shares t * (xp - entry_price t))\<rparr>],
             open_positions := AList.delete tk (open_positions e)\<rparr>"
    from t have "(tk, t) \<in> set (open_positions e)"
      by (rule map_of_SomeD)
    with assms(1) have "is_cents (target_price t)"
      by (auto simp: cents_targets_def list_all_iff)
    with assms(1) show ?thesis
      by (simp add: cents_targets_def e' list_all_delete)
  qed
qed

lemma close_all_cents:
  "cents_targets e \<Longrightarrow> close_all cs e = Inr e' \<Longrightarrow> cents_targets e'"
proof (induction cs e rule: close_all.induct)
  case (1 e)
  then show ?case by simp
next
  case (2 tk xp xd rest e)
  then show ?case
    by (auto split: sum.splits dest: close_position_cents)
qed

lemma screening_step_cents:
  assumes "cents_targets e" and "screening_step pc d e = Inr e'"
  shows "cents_targets e'"
proof -
  from assms(2) obtain e1 sel where u: "update_open_positions d e = Inr e1"
    and sc: "screen_for_date pc d e1 = Inr sel"
    and s: "(case sel of None \<Rightarrow> Inr e1
             | Some worst \<Rightarrow> open_position worst d e1) = Inr e'"
    by (auto simp: screening_step_def split: sum.splits)
  from assms(1) u have r1: "cents_targets e1"
    by (auto simp: update_open_positions_def split: sum.splits dest: close_all_cents)
  show ?thesis
  proof (cases sel)
    case None
    with s r1 show ?thesis by simp
  next
    case (Some worst)
    with s have o: "open_position worst d e1 = Inr e'"
      by simp
    from sc Some have "is_cents (info_target_price worst)"
      by (auto dest: screen_target_cents)
    with open_position_cases [OF o] r1 show ?thesis
      by (auto simp: cents_targets_def)
  qed
qed

lemma simulate_loop_cents_aux:
  assumes "simulate_loop pc current_date end_dt e = Some r"
  shows "cents_targets e \<longrightarrow> (\<forall>e'. r = Inr e' \<longrightarrow> cents_targets e')"
  using assms
proof (induction rule: simulate_loop.raw_induct [rotated, consumes 1])
  case (1 loop pc current_date end_dt e r)
  show ?case
  proof (intro impI allI)
    fix e'
    assume ok: "cents_targets e" and r: "r = Inr e'"
    show "cents_targets e'"
    proof (cases "current_date \<le> end_dt")
      case False
      with 1(2) r ok show ?thesis by simp
    next
      case True
      with 1(2) r obtain e1 where st: "screening_step pc current_date e = Inr e1"
        and rest: "loop pc (current_date + timedelta_of_days (screening_frequency_days e1))
                     end_dt e1 = Some (Inr e')"
        by (auto split: sum.splits)
      from ok st have "cents_targets e1"
        by (rule screening_step_cents)
      with 1(1) [OF rest] show ?thesis
        by simp
    qed
  qed
qed

lemma simulate_loop_cents:
  "simulate_loop pc current_date end_dt e = Some (Inr e') \<Longrightarrow> cents_targets e \<Longrightarrow>
     cents_targets e'"
  using simulate_loop_cents_aux by blast

lemma cents_eval:
  "calculate_worst_5day_performance exact_pct_change
     (tail_rows 10 (filter (\<lambda>row. fst row \<le> timedelta_of_days 9) cents_hist)) =
   Some cents_perf"
  by code_simp

lemma cents_screen:
  "screen_for_date exact_pct_change (timedelta_of_days 9) cents_engine = Inr (Some cents_info)"
  by code_simp

lemma cents_step:
  "screening_step exact_pct_change (timedelta_of_days 9) cents_engine = Inr cents_opened"
  by code_simp

lemma cents_raw_start:
  "snd (tail_rows 10 (filter (\<lambda>row. fst row \<le> timedelta_of_days 9) cents_hist) ! 4)
     = 100126 / 1000"
  by code_simp

lemma cents_later:
  "get_price_on_date (naive_frame cents_hist) (timedelta_of_days 16)
     = Inr (Some (100128 / 1000)) \<and>
   positions_to_close (timedelta_of_days 16) cents_opened = Inr []"
  by code_simp

text \<open>
  Claim C10. The function \<open>round2\<close> returns a multiple of 1/100 that is within 1/200 of
  its argument. Every field of a result of the evaluator is rounded by it: the start price
  and the end price are multiples of 1/100, each the rounding of the close of its end of
  one window of the history, and the return is the rounding of the percentage change of
  that window (a multiple of 1/100 when it is finite). The target price of the candidate
  that the selector returns is the rounded close of a row of the history of its ticker,
  not the close itself; every trade that a screening step or a whole simulation from the
  initial state opens carries such a target; and the exit check lists a position exactly
  when the current price of its ticker is at least the target stored in its trade.
\<close>

theorem evaluator_rounds_to_cents:
  "is_cents (round2 x) \<and> \<bar>round2 x - x\<bar> \<le> 1 / 200 \<and>
   (calculate_worst_5day_performance pc h = Some perf \<longrightarrow>
      is_cents (start_price perf) \<and> is_cents (end_price perf) \<and>
      (\<forall>r. return_pct perf = Finite r \<longrightarrow> is_cents r) \<and>
      (\<exists>i y. 5 \<le> i \<and> i < length h \<and>
           pc (snd (h ! i)) (snd (h ! (i - 5))) = Some y \<and>
           return_pct perf = round2_pyfloat y \<and>
           start_price perf = round2 (snd (h ! (i - 5))) \<and>
           end_price perf = round2 (snd (h ! i)))) \<and>
   (screen_for_date pc d e = Inr (Some worst) \<longrightarrow>
      is_cents (info_target_price worst) \<and>
      (\<exists>entry \<in> set (all_historical_data e). \<exists>row \<in> set (df_rows (snd entry)).
          info_ticker worst = fst entry \<and> info_target_price worst = round2 (snd row))) \<and>
   (screening_step pc d e = Inr e' \<and>
    list_all (\<lambda>p. is_cents (target_price (snd p))) (open_positions e) \<longrightarrow>
      list_all (\<lambda>p. is_cents (target_price (snd p))) (open_positions e')) \<and>
   (open_positions init = [] \<and> closed_trades init = [] \<and>
    simulate_screenings pc now init = Some (Inr fin) \<longrightarrow>
      list_all (\<lambda>p. is_cents (target_price (snd p))) (open_positions fin) \<and>
      list_all (\<lambda>t. is_cents (target_price t)) (closed_trades fin)) \<and>
   (positions_to_close d e = Inr to_close \<longrightarrow>
      ((tk, xp, xd) \<in> set to_close \<longleftrightarrow>
         xd = d \<and>
         (\<exists>trade hd. (tk, trade) \<in> set (open_positions e) \<and>
            map_of (all_historical_data e) tk = Some hd \<and>
            get_price_on_date hd d = Inr (Some xp) \<and> target_price trade \<le> xp)))"
proof (intro conjI impI)
  show "is_cents (round2 x)"
    by (rule round2_cents)
  show "\<bar>round2 x - x\<bar> \<le> 1 / 200"
    by (rule round2_near)
next
  assume c: "calculate_worst_5day_performance pc h = Some perf"
  from calculate_Some [OF c] obtain i y where i: "5 \<le> i" "i < length h"
    and y: "pc (snd (h ! i)) (snd (h ! (i - 5))) = Some y"
    and p: "perf = \<lparr>return_pct = round2_pyfloat y,
            start_date = strftime_ymd (fst (h ! (i - 5))),
            end_date = strftime_ymd (fst (h ! i)),
            start_price = round2 (snd (h ! (i - 5))),
            end_price = round2 (snd (h ! i))\<rparr>"
    by blast
  from p show "is_cents (start_price perf)" and "is_cents (end_price perf)"
    by (simp_all add: round2_cents)
  from p show "\<forall>r. return_pct perf = Finite r \<longrightarrow> is_cents r"
    by (auto dest: round2_pyfloat_cents)
  from i y p show "\<exists>i y. 5 \<le> i \<and> i < length h \<and>
           pc (snd (h ! i)) (snd (h ! (i - 5))) = Some y \<and>
           return_pct perf = round2_pyfloat y \<and>
           start_price perf = round2 (snd (h ! (i - 5))) \<and>
           end_price perf = round2 (snd (h ! i))"
    by (intro exI [of _ i] exI [of _ y]) simp
next
  assume s: "screen_for_date pc d e = Inr (Some worst)"
  then show "is_cents (info_target_price worst)"
    by (rule screen_target_cents)
  from s show "\<exists>entry \<in> set (all_historical_data e). \<exists>row \<in> set (df_rows (snd entry)).
          info_ticker worst = fst entry \<and> info_target_price worst = round2 (snd row)"
    by (rule screen_target)
next
  assume a: "screening_step pc d e = Inr e' \<and>
    list_all (\<lambda>p. is_cents (target_price (snd p))) (open_positions e)"
  then obtain to_close e1 sel where c: "close_all to_close e = Inr e1"
    and sc: "screen_for_date pc d e1 = Inr sel"
    and s: "(case sel of None \<Rightarrow> Inr e1
             | Some worst \<Rightarrow> open_position worst d e1) = Inr e'"
    by (auto simp: screening_step_def update_open_positions_def split: sum.splits)
  from close_all_open [OF c] a
  have r1: "list_all (\<lambda>p. is_cents (target_price (snd p))) (open_positions e1)"
    by (auto simp: list_all_iff)
  show "list_all (\<lambda>p. is_cents (target_price (snd p))) (open_positions e')"
  proof (cases sel)
    case None
    with s r1 show ?thesis by simp
  next
    case (Some w)
    with s have o: "open_position w d e1 = Inr e'"
      by simp
    from sc Some have "is_cents (info_target_price w)"
      by (auto dest: screen_target_cents)
    with open_position_cases [OF o] r1 show ?thesis
      by auto
  qed
next
  assume a: "open_positions init = [] \<and> closed_trades init = [] \<and>
    simulate_screenings pc now init = Some (Inr fin)"
  then have "cents_targets init"
    by (simp add: cents_targets_def)
  with a have r: "cents_targets fin"
    by (auto simp: simulate_screenings_def dest: simulate_loop_cents)
  then show "list_all (\<lambda>p. is_cents (target_price (snd p))) (open_positions fin)"
    by (simp add: cents_targets_def)
  from r show "list_all (\<lambda>t. is_cents (target_price t)) (closed_trades fin)"
    by (simp add: cents_targets_def)
next
  assume "positions_to_close d e = Inr to_close"
  then have "collect_to_close d (all_historical_data e) (open_positions e) = Inr to_close"
    by (simp add: positions_to_close_def)
  from collect_to_close_iff [OF this]
  show "(tk, xp, xd) \<in> set to_close \<longleftrightarrow>
         xd = d \<and>
         (\<exists>trade hd. (tk, trade) \<in> set (open_positions e) \<and>
            map_of (all_historical_data e) tk = Some hd \<and>
            get_price_on_date hd d = Inr (Some xp) \<and> target_price trade \<le> xp)" .
qed

theorem evaluator_rounds_to_cents_witness:
  "calculate_worst_5day_performance exact_pct_change
     (tail_rows 10 (filter (\<lambda>row. fst row \<le> timedelta_of_days 9) cents_hist)) =
     Some cents_perf \<and>
   snd (tail_rows 10 (filter (\<lambda>row. fst row \<le> timedelta_of_days 9) cents_hist) ! 4)
     = 100126 / 1000 \<and>
   start_price cents_perf = 10013 / 100 \<and>
   is_cents (start_price cents_perf) \<and> is_cents (end_price cents_perf) \<and>
   return_pct cents_perf = Finite (- (1011 / 100)) \<and> is_cents (- (1011 / 100)) \<and>
   is_cents (round2 (100126 / 1000)) \<and> \<bar>round2 (100126 / 1000) - 100126 / 1000\<bar> \<le> 1 / 200 \<and>
   screen_for_date exact_pct_change (timedelta_of_days 9) cents_engine = Inr (Some cents_info) \<and>
   is_cents (info_target_price cents_info) \<and>
   screening_step exact_pct_change (timedelta_of_days 9) cents_engine = Inr cents_opened \<and>
   list_all (\<lambda>p. is_cents (target_price (snd p))) (open_positions cents_opened) \<and>
   map (\<lambda>p. target_price (snd p)) (open_positions cents_opened) = [10013 / 100] \<and>
   get_price_on_date (naive_frame cents_hist) (timedelta_of_days 16)
     = Inr (Some (100128 / 1000)) \<and>
   positions_to_close (timedelta_of_days 16) cents_opened = Inr [] \<and>
   open_positions reopen_engine = [] \<and> closed_trades reopen_engine = [] \<and>
   simulate_screenings exact_pct_change (timedelta_of_days 365) reopen_engine
     = Some (Inr reopen_after) \<and>
   list_all (\<lambda>p. is_cents (target_price (snd p))) (open_positions reopen_after) \<and>
   list_all (\<lambda>t. is_cents (target_price t)) (closed_trades reopen_after) \<and>
   positions_to_close (timedelta_of_days 7) reopen_before
     = Inr [(''T'', 105, timedelta_of_days 7)] \<and>
   (\<exists>trade hd. (''T'', trade) \<in> set (open_positions reopen_before) \<and>
      map_of (all_historical_data reopen_before) ''T'' = Some hd \<and>
      get_price_on_date hd (timedelta_of_days 7) = Inr (Some 105) \<and>
      target_price trade \<le> 105)"
proof -
  note t1 = evaluator_rounds_to_cents
    [where x = "100126 / 1000" and pc = exact_pct_change
      and h = "tail_rows 10 (filter (\<lambda>row. fst row \<le> timedelta_of_days 9) cents_hist)"
      and perf = cents_perf and d = "timedelta_of_days 9" and e = cents_engine
      and worst = cents_info and e' = cents_opened and init = reopen_engine
      and now = "timedelta_of_days 365" and fin = reopen_after]
  note t2 = evaluator_rounds_to_cents
    [where d = "timedelta_of_days 7" and e = reopen_before and tk = "''T''" and xp = 105
      and xd = "timedelta_of_days 7" and to_close = "[(''T'', 105, timedelta_of_days 7)]"]
  have a: "open_positions reopen_engine = []" and b: "closed_trades reopen_engine = []"
    and c: "list_all (\<lambda>p. is_cents (target_price (snd p))) (open_positions cents_engine)"
    by (simp_all add: reopen_engine_def cents_engine_def init_engine_def)
  from t1 have p0: "is_cents (round2 (100126 / 1000))"
    and p0': "\<bar>round2 (100126 / 1000) - 100126 / 1000\<bar> \<le> 1 / 200"
    by blast+
  from t1 cents_eval
  have p1: "is_cents (start_price cents_perf)" and p2: "is_cents (end_price cents_perf)"
    and p3: "\<forall>r. return_pct cents_perf = Finite r \<longrightarrow> is_cents r"
    by blast+
  have q0: "return_pct cents_perf = Finite (- (1011 / 100))"
    by (simp add: cents_perf_def)
  with p3 have p3': "is_cents (- (1011 / 100))"
    by blast
  from t1 cents_screen have p4: "is_cents (info_target_price cents_info)"
    by blast
  from t1 cents_step c
  have p5: "list_all (\<lambda>p. is_cents (target_price (snd p))) (open_positions cents_opened)"
    by blast
  from t1 a b reopen_loop
  have p6: "list_all (\<lambda>p. is_cents (target_price (snd p))) (open_positions reopen_after)"
    and p7: "list_all (\<lambda>t. is_cents (target_price t)) (closed_trades reopen_after)"
    by blast+
  have m: "(''T'', 105, timedelta_of_days 7) \<in> set [(''T'', 105, timedelta_of_days 7)]"
    by simp
  from t2 reopen_to_close m
  have p8: "\<exists>trade hd. (''T'', trade) \<in> set (open_positions reopen_before) \<and>
      map_of (all_historical_data reopen_before) ''T'' = Some hd \<and>
      get_price_on_date hd (timedelta_of_days 7) = Inr (Some 105) \<and>
      target_price trade \<le> 105"
    by blast
  have q: "start_price cents_perf = 10013 / 100"
    "map (\<lambda>p. target_price (snd p)) (open_positions cents_opened) = [10013 / 100]"
    by (simp_all add: cents_perf_def cents_opened_def)
  from cents_later
  have l1: "get_price_on_date (naive_frame cents_hist) (timedelta_of_days 16)
      = Inr (Some (100128 / 1000))"
    and l2: "positions_to_close (timedelta_of_days 16) cents_opened = Inr []"
    by simp_all
  from cents_eval cents_raw_start q q0 p0 p0' p1 p2 p3' cents_screen p4 cents_step p5 l1 l2
    a b reopen_loop p6 p7 reopen_to_close p8
  show ?thesis
    by blast
qed

end
